theory Spec2Isabelle
  imports Complex_Main
begin

section \<open>Numbers\<close>

text \<open>
  The program is TypeScript: every \<^verbatim>\<open>number\<close> is an IEEE double. The embedding
  idealises them as \<^typ>\<open>real\<close> (levels, amplitudes, ratios, millisecond timestamps
  and durations) and uses \<^typ>\<open>nat\<close> for the counters of the service, which only ever
  count up from zero or down to zero. Rounding error, infinities and NaN are outside the
  model, except where a function can return NaN on an out-of-range array read: there
  the result is an \<open>option\<close> and \<open>None\<close> stands for NaN.
\<close>

subsection \<open>constants.ts\<close>

definition NOISE_ANALYSIS_SLICE_SEC :: real where
  "NOISE_ANALYSIS_SLICE_SEC = 30"

definition NOISE_ANALYSIS_FRAME_MS :: real where
  "NOISE_ANALYSIS_FRAME_MS = 50"

definition NOISE_SCORE_THRESHOLD_DBFS :: real where
  "NOISE_SCORE_THRESHOLD_DBFS = - 50"

definition NOISE_SCORE_SEGMENT_MERGE_GAP_MS :: real where
  "NOISE_SCORE_SEGMENT_MERGE_GAP_MS = 500"

definition NOISE_SCORE_MAX_SEGMENTS_PER_MIN :: real where
  "NOISE_SCORE_MAX_SEGMENTS_PER_MIN = 6"

definition DBFS_MIN_POSSIBLE :: real where
  "DBFS_MIN_POSSIBLE = - 100"

definition DBFS_MAX_POSSIBLE :: real where
  "DBFS_MAX_POSSIBLE = 0"

definition INVALID_DBFS_THRESHOLD :: real where
  "INVALID_DBFS_THRESHOLD = - 90"

definition DEFAULT_DISPLAY_BASELINE_DB :: real where
  "DEFAULT_DISPLAY_BASELINE_DB = 40"

subsection \<open>JavaScript's Math helpers\<close>

text \<open>\<^verbatim>\<open>Math.round(x)\<close> rounds half up: it is \<open>floor (x + 1/2)\<close>.\<close>

definition Math_round :: "real \<Rightarrow> real" where
  "Math_round x = of_int \<lfloor>x + 1 / 2\<rfloor>"

text \<open>\<^verbatim>\<open>Math.log10\<close>, used only on arguments floored at a positive epsilon.\<close>

definition Math_log10 :: "real \<Rightarrow> real" where
  "Math_log10 x = log 10 x"

text \<open>\<^verbatim>\<open>Math.pow(10, e)\<close>.\<close>

definition pow10 :: "real \<Rightarrow> real" where
  "pow10 e = 10 powr e"

subsection \<open>types.ts\<close>

record NoiseSliceRawStats =
  avgDbfs :: real
  maxDbfs :: real
  p50Dbfs :: real
  p95Dbfs :: real
  overRatioDbfs :: real
  segmentCount :: real
  sampledDurationMs :: "real option"
  gapCount :: "real option"
  maxGapMs :: "real option"

record NoiseSliceDisplayStats =
  avgDb :: real
  p95Db :: real

record ThresholdsUsed =
  tu_scoreThresholdDbfs :: real
  tu_segmentMergeGapMs :: real
  tu_maxSegmentsPerMin :: real

record NoiseScoreBreakdown =
  sustainedPenalty :: real
  timePenalty :: real
  segmentPenalty :: real
  thresholdsUsed :: ThresholdsUsed
  sustainedLevelDbfs :: real
  sd_overRatioDbfs :: real
  sd_segmentCount :: real
  minutes :: real
  sd_durationMs :: real
  sd_sampledDurationMs :: "real option"
  coverageRatio :: "real option"

record ScoreResult =
  score :: real
  scoreDetail :: NoiseScoreBreakdown

section \<open>services/noiseMath.ts\<close>

record RmsPeak =
  rms :: real
  peak :: real

text \<open>
  The \<^verbatim>\<open>for\<close> loop of \<^verbatim>\<open>computeRmsAndPeak\<close> over the samples, with its two
  accumulators \<^verbatim>\<open>sum\<close> (here \<open>sm\<close>) and \<^verbatim>\<open>peak\<close> (here \<open>pk\<close>).
\<close>

fun rmsPeakLoop :: "real list \<Rightarrow> real \<Rightarrow> real \<Rightarrow> real \<times> real" where
  "rmsPeakLoop [] sm pk = (sm, pk)"
| "rmsPeakLoop (v # vs) sm pk =
     (let av = \<bar>v\<bar>
      in rmsPeakLoop vs (sm + v * v) (if av > pk then av else pk))"

definition computeRmsAndPeak :: "real list \<Rightarrow> RmsPeak" where
  "computeRmsAndPeak data =
     (case rmsPeakLoop data 0 0 of
        (sm, pk) \<Rightarrow> \<lparr> rms = sqrt (sm / max 1 (real (length data))), peak = pk \<rparr>)"

definition computeDbfsFromRms :: "real \<Rightarrow> real" where
  "computeDbfsFromRms r =
     (let safe = max (1 / 10 ^ 12) r;
          dbfs = 20 * Math_log10 safe
      in max DBFS_MIN_POSSIBLE (min DBFS_MAX_POSSIBLE dbfs))"

record DisplayParams =
  dp_rms :: real
  dp_baselineRms :: real
  dp_baselineDb :: real

definition computeDisplayDbFromRms :: "DisplayParams \<Rightarrow> real" where
  "computeDisplayDbFromRms params =
     (let safeRms = max (1 / 10 ^ 12) (dp_rms params);
          safeBase = max (1 / 10 ^ 12) (dp_baselineRms params);
          displayDb = dp_baselineDb params + 20 * Math_log10 (safeRms / safeBase)
      in max 20 (min 100 displayDb))"

definition computeAvgDbfsFromDbfsArray :: "real list \<Rightarrow> real" where
  "computeAvgDbfsFromDbfsArray dbfsArr =
     (if length dbfsArr = 0 then DBFS_MIN_POSSIBLE
      else
        let sumPower = foldl (\<lambda>s db. s + pow10 (db / 10)) 0 dbfsArr;
            meanPower = sumPower / real (length dbfsArr);
            avgDbfs = 10 * Math_log10 (max meanPower (1 / 10 ^ 12))
        in max DBFS_MIN_POSSIBLE (min DBFS_MAX_POSSIBLE avgDbfs))"

text \<open>
  A JavaScript array read \<^verbatim>\<open>arr[i]\<close>: \<^verbatim>\<open>undefined\<close> outside the array, which
  arithmetic turns into NaN.
\<close>

definition arrayRead :: "real list \<Rightarrow> int \<Rightarrow> real option" where
  "arrayRead arr i = (if 0 \<le> i \<and> i < int (length arr) then Some (arr ! nat i) else None)"

definition computeQuantileFromDbfsArray :: "real list \<Rightarrow> real \<Rightarrow> real option" where
  "computeQuantileFromDbfsArray dbfsArr p =
     (if length dbfsArr = 0 then Some DBFS_MIN_POSSIBLE
      else
        let rmsArr = sort (map (\<lambda>db. pow10 (db / 20)) dbfsArr);
            idx = (real (length rmsArr) - 1) * p;
            lo = \<lfloor>idx\<rfloor>;
            hi = \<lceil>idx\<rceil>;
            w = idx - of_int lo;
            quantileRms =
              (if lo = hi then arrayRead rmsArr lo
               else
                 case (arrayRead rmsArr lo, arrayRead rmsArr hi) of
                   (Some a, Some b) \<Rightarrow> Some (a * (1 - w) + b * w)
                 | _ \<Rightarrow> None)
        in map_option (\<lambda>q. 20 * Math_log10 (max q (1 / 10 ^ 12))) quantileRms)"

definition clamp01 :: "real \<Rightarrow> real" where
  "clamp01 val = max 0 (min 1 val)"

section \<open>utils/noiseScoreEngine.ts\<close>

text \<open>
  The local constants of \<^verbatim>\<open>computeNoiseSliceScore\<close>, one definition each, in the
  order of the source. \<^verbatim>\<open>raw.sampledDurationMs && raw.sampledDurationMs > 0\<close> is
  false for an absent field, for 0 and for a negative value.
\<close>

definition sustainedDiff_of :: "NoiseSliceRawStats \<Rightarrow> real" where
  "sustainedDiff_of raw = max 0 (p50Dbfs raw - NOISE_SCORE_THRESHOLD_DBFS)"

definition sustainedPenalty_of :: "NoiseSliceRawStats \<Rightarrow> real" where
  "sustainedPenalty_of raw = clamp01 (sustainedDiff_of raw / 6)"

definition timePenalty_of :: "NoiseSliceRawStats \<Rightarrow> real" where
  "timePenalty_of raw = clamp01 (overRatioDbfs raw / (3 / 10))"

definition effectiveDurationMs_of :: "NoiseSliceRawStats \<Rightarrow> real \<Rightarrow> real" where
  "effectiveDurationMs_of raw durationMs =
     (case sampledDurationMs raw of
        Some sd \<Rightarrow> if sd > 0 then sd else durationMs
      | None \<Rightarrow> durationMs)"

definition minutes_of :: "NoiseSliceRawStats \<Rightarrow> real \<Rightarrow> real" where
  "minutes_of raw durationMs = max (1 / 1000000) (effectiveDurationMs_of raw durationMs / 60000)"

definition segmentsPerMin_of :: "NoiseSliceRawStats \<Rightarrow> real \<Rightarrow> real" where
  "segmentsPerMin_of raw durationMs = segmentCount raw / minutes_of raw durationMs"

definition segmentPenalty_of :: "NoiseSliceRawStats \<Rightarrow> real \<Rightarrow> real" where
  "segmentPenalty_of raw durationMs =
     clamp01 (segmentsPerMin_of raw durationMs / max (1 / 1000000) NOISE_SCORE_MAX_SEGMENTS_PER_MIN)"

definition totalPenalty_of :: "NoiseSliceRawStats \<Rightarrow> real \<Rightarrow> real" where
  "totalPenalty_of raw durationMs =
     (4 / 10) * sustainedPenalty_of raw + (3 / 10) * timePenalty_of raw
       + (3 / 10) * segmentPenalty_of raw durationMs"

definition scoreRaw_of :: "NoiseSliceRawStats \<Rightarrow> real \<Rightarrow> real" where
  "scoreRaw_of raw durationMs = 100 * (1 - totalPenalty_of raw durationMs)"

definition score_of :: "NoiseSliceRawStats \<Rightarrow> real \<Rightarrow> real" where
  "score_of raw durationMs = max 0 (min 100 (Math_round (scoreRaw_of raw durationMs * 10) / 10))"

text \<open>
  \<^verbatim>\<open>coverageRatio: raw.sampledDurationMs ? (raw.sampledDurationMs / durationMs) : 1\<close>.
  The division is by the caller's \<^verbatim>\<open>durationMs\<close>; where that is 0 JavaScript yields an
  infinity, which the model records as \<open>None\<close>.
\<close>

definition coverageRatio_of :: "NoiseSliceRawStats \<Rightarrow> real \<Rightarrow> real option" where
  "coverageRatio_of raw durationMs =
     (case sampledDurationMs raw of
        None \<Rightarrow> Some 1
      | Some sd \<Rightarrow>
          if sd = 0 then Some 1
          else if durationMs = 0 then None
          else Some (sd / durationMs))"

definition computeNoiseSliceScore :: "NoiseSliceRawStats \<Rightarrow> real \<Rightarrow> ScoreResult" where
  "computeNoiseSliceScore raw durationMs =
     \<lparr> score = score_of raw durationMs,
       scoreDetail =
         \<lparr> sustainedPenalty = sustainedPenalty_of raw,
           timePenalty = timePenalty_of raw,
           segmentPenalty = segmentPenalty_of raw durationMs,
           thresholdsUsed =
             \<lparr> tu_scoreThresholdDbfs = NOISE_SCORE_THRESHOLD_DBFS,
               tu_segmentMergeGapMs = NOISE_SCORE_SEGMENT_MERGE_GAP_MS,
               tu_maxSegmentsPerMin = NOISE_SCORE_MAX_SEGMENTS_PER_MIN \<rparr>,
           sustainedLevelDbfs = p50Dbfs raw,
           sd_overRatioDbfs = overRatioDbfs raw,
           sd_segmentCount = segmentCount raw,
           minutes = minutes_of raw durationMs,
           sd_durationMs = durationMs,
           sd_sampledDurationMs = sampledDurationMs raw,
           coverageRatio = coverageRatio_of raw durationMs \<rparr> \<rparr>"

subsection \<open>types.ts, continued\<close>

record NoiseRealtimePoint =
  rp_t :: real
  rp_dbfs :: real
  rp_displayDb :: real

record NoiseSliceSummary =
  sl_id :: string
  sl_start :: real
  sl_end :: real
  sl_frames :: nat
  sl_raw :: NoiseSliceRawStats
  sl_display :: NoiseSliceDisplayStats
  sl_score :: real
  sl_scoreDetail :: NoiseScoreBreakdown

datatype NoiseStreamStatus = Initializing | Active | Paused | PermissionDenied | Error

record NoiseControlSettings =
  maxLevelDb :: real
  baselineDb :: real
  showRealtimeDb :: bool
  avgWindowSec :: real
  sliceSec :: real
  frameMs :: real
  scoreThresholdDbfs :: real
  segmentMergeGapMs :: real
  maxSegmentsPerMin :: real
  alertSoundEnabled :: bool
  baselineRms :: "real option"

text \<open>
  \<^verbatim>\<open>Partial<NoiseControlSettings>\<close>: every key may be absent (\<open>None\<close>). It is also the
  shape of a parsed JSON object read back from storage.
\<close>

record PartialSettings =
  p_maxLevelDb :: "real option"
  p_baselineDb :: "real option"
  p_showRealtimeDb :: "bool option"
  p_avgWindowSec :: "real option"
  p_sliceSec :: "real option"
  p_frameMs :: "real option"
  p_scoreThresholdDbfs :: "real option"
  p_segmentMergeGapMs :: "real option"
  p_maxSegmentsPerMin :: "real option"
  p_alertSoundEnabled :: "bool option"
  p_baselineRms :: "real option"

section \<open>The state: the service object and the browser storage it uses\<close>

text \<open>
  One key of \<^verbatim>\<open>localStorage\<close>: no entry (or the empty string, which the code treats
  alike), an entry that \<^verbatim>\<open>JSON.parse\<close> rejects or that has not the expected shape,
  or a parsed value.
\<close>

datatype 'a item = NoItem | BadItem | Item 'a

text \<open>
  The fields of \<^verbatim>\<open>class NoiseService\<close>, each \<^verbatim>\<open>this.x\<close> as \<open>this_x\<close>. Of the
  Web Audio handles only \<^verbatim>\<open>analyser\<close> steers control flow: \<open>this_analyser\<close> says that
  it is not \<^verbatim>\<open>null\<close>. Listener and calibration callbacks are calls out of the
  service: \<open>calibrationReports\<close> records the success flag of each calibration callback
  invoked, \<open>this_calibrationCallback\<close> says that a callback is registered. The two
  \<^verbatim>\<open>localStorage\<close> keys and the \<^verbatim>\<open>NoiseControlSettingsUpdated\<close> events dispatched
  on \<^verbatim>\<open>window\<close> (oldest first) complete the state.
\<close>

record NoiseService =
  this_status :: NoiseStreamStatus
  this_analyser :: bool
  this_lastFrameTime :: real
  this_baselineDb :: real
  this_baselineRms :: real
  this_lastRms :: real
  this_calibrationBuffer :: "real list"
  this_isCalibrating :: bool
  this_calibrationTargetDb :: real
  this_calibrationCallback :: bool
  this_warmupFramesRemaining :: nat
  this_ringBuffer :: "NoiseRealtimePoint list"
  this_currentSliceStart :: real
  this_sliceDbfsValues :: "real list"
  this_sliceAboveThresholdDuration :: real
  this_sliceFramesTotal :: nat
  this_sliceSampledDuration :: real
  this_isAboveThreshold :: bool
  this_segmentCount :: nat
  this_lastSegmentEndTs :: real
  this_lastProcessedFrameTs :: "real option"
  this_gapCount :: nat
  this_maxGapMs :: real
  this_cachedCurrentScore :: "real option"
  this_cachedCurrentScoreDetail :: "NoiseScoreBreakdown option"
  this_lastScoreCalcTime :: real
  this_lastCompletedSlice :: "NoiseSliceSummary option"
  calibrationReports :: "bool list"
  localStorage_settings :: "PartialSettings item"
  localStorage_slices :: "NoiseSliceSummary list item"
  settingsEvents :: "NoiseControlSettings list"

definition ringBufferCapacity :: nat where
  "ringBufferCapacity = 200"

section \<open>utils/noiseControlSettings.ts\<close>

definition DEFAULT_SETTINGS :: NoiseControlSettings where
  "DEFAULT_SETTINGS =
     \<lparr> maxLevelDb = 55,
       baselineDb = DEFAULT_DISPLAY_BASELINE_DB,
       showRealtimeDb = True,
       avgWindowSec = 1,
       sliceSec = NOISE_ANALYSIS_SLICE_SEC,
       frameMs = NOISE_ANALYSIS_FRAME_MS,
       scoreThresholdDbfs = NOISE_SCORE_THRESHOLD_DBFS,
       segmentMergeGapMs = NOISE_SCORE_SEGMENT_MERGE_GAP_MS,
       maxSegmentsPerMin = NOISE_SCORE_MAX_SEGMENTS_PER_MIN,
       alertSoundEnabled = False,
       baselineRms = None \<rparr>"

text \<open>The object spread \<^verbatim>\<open>{ ...a, ...b }\<close>: a key present in \<open>b\<close> wins.\<close>

definition spread :: "NoiseControlSettings \<Rightarrow> PartialSettings \<Rightarrow> NoiseControlSettings" where
  "spread a b =
     \<lparr> maxLevelDb = (case p_maxLevelDb b of Some v \<Rightarrow> v | None \<Rightarrow> maxLevelDb a),
       baselineDb = (case p_baselineDb b of Some v \<Rightarrow> v | None \<Rightarrow> baselineDb a),
       showRealtimeDb = (case p_showRealtimeDb b of Some v \<Rightarrow> v | None \<Rightarrow> showRealtimeDb a),
       avgWindowSec = (case p_avgWindowSec b of Some v \<Rightarrow> v | None \<Rightarrow> avgWindowSec a),
       sliceSec = (case p_sliceSec b of Some v \<Rightarrow> v | None \<Rightarrow> sliceSec a),
       frameMs = (case p_frameMs b of Some v \<Rightarrow> v | None \<Rightarrow> frameMs a),
       scoreThresholdDbfs =
         (case p_scoreThresholdDbfs b of Some v \<Rightarrow> v | None \<Rightarrow> scoreThresholdDbfs a),
       segmentMergeGapMs =
         (case p_segmentMergeGapMs b of Some v \<Rightarrow> v | None \<Rightarrow> segmentMergeGapMs a),
       maxSegmentsPerMin =
         (case p_maxSegmentsPerMin b of Some v \<Rightarrow> v | None \<Rightarrow> maxSegmentsPerMin a),
       alertSoundEnabled =
         (case p_alertSoundEnabled b of Some v \<Rightarrow> v | None \<Rightarrow> alertSoundEnabled a),
       baselineRms = (case p_baselineRms b of Some v \<Rightarrow> Some v | None \<Rightarrow> baselineRms a) \<rparr>"

text \<open>\<^verbatim>\<open>JSON.parse(JSON.stringify(next))\<close>: every key of a full settings object is present.\<close>

definition toJSON :: "NoiseControlSettings \<Rightarrow> PartialSettings" where
  "toJSON c =
     \<lparr> p_maxLevelDb = Some (maxLevelDb c),
       p_baselineDb = Some (baselineDb c),
       p_showRealtimeDb = Some (showRealtimeDb c),
       p_avgWindowSec = Some (avgWindowSec c),
       p_sliceSec = Some (sliceSec c),
       p_frameMs = Some (frameMs c),
       p_scoreThresholdDbfs = Some (scoreThresholdDbfs c),
       p_segmentMergeGapMs = Some (segmentMergeGapMs c),
       p_maxSegmentsPerMin = Some (maxSegmentsPerMin c),
       p_alertSoundEnabled = Some (alertSoundEnabled c),
       p_baselineRms = baselineRms c \<rparr>"

definition getNoiseControlSettings :: "PartialSettings item \<Rightarrow> NoiseControlSettings" where
  "getNoiseControlSettings stored =
     (case stored of
        Item parsed \<Rightarrow> spread DEFAULT_SETTINGS parsed
      | _ \<Rightarrow> DEFAULT_SETTINGS)"

text \<open>
  \<^verbatim>\<open>NoiseService.updateLocalSettings\<close>, the handler the constructor subscribes to the
  settings event. \<^verbatim>\<open>settings.baselineRms && settings.baselineRms > 0\<close> is false for an
  absent key.
\<close>

definition updateLocalSettings :: "NoiseControlSettings \<Rightarrow> NoiseService \<Rightarrow> NoiseService" where
  "updateLocalSettings settings s =
     (let s1 = s\<lparr>this_baselineDb := baselineDb settings\<rparr>
      in case baselineRms settings of
           Some r \<Rightarrow> if r > 0 then s1\<lparr>this_baselineRms := r\<rparr> else s1
         | None \<Rightarrow> s1)"

text \<open>
  \<^verbatim>\<open>saveNoiseControlSettings\<close>: merge, pin the five fixed fields, store, dispatch. The
  dispatch is synchronous and runs the service's handler. \<open>pinned\<close> is the value of the
  source's \<^verbatim>\<open>next\<close> at the \<^verbatim>\<open>setItem\<close>, which is taken to succeed (the function
  does not catch a failing write).
\<close>

definition pinned :: "PartialSettings \<Rightarrow> PartialSettings item \<Rightarrow> NoiseControlSettings" where
  "pinned settings stored =
     (let current = getNoiseControlSettings stored;
          next = spread current settings
      in next\<lparr> sliceSec := NOISE_ANALYSIS_SLICE_SEC,
               frameMs := NOISE_ANALYSIS_FRAME_MS,
               scoreThresholdDbfs := NOISE_SCORE_THRESHOLD_DBFS,
               segmentMergeGapMs := NOISE_SCORE_SEGMENT_MERGE_GAP_MS,
               maxSegmentsPerMin := NOISE_SCORE_MAX_SEGMENTS_PER_MIN \<rparr>)"

definition saveNoiseControlSettings :: "PartialSettings \<Rightarrow> NoiseService \<Rightarrow> NoiseService" where
  "saveNoiseControlSettings settings s =
     (let next = pinned settings (localStorage_settings s);
          s1 = s\<lparr>localStorage_settings := Item (toJSON next)\<rparr>;
          s2 = s1\<lparr>settingsEvents := settingsEvents s1 @ [next]\<rparr>
      in updateLocalSettings next s2)"

definition resetNoiseControlSettings :: "NoiseService \<Rightarrow> NoiseService" where
  "resetNoiseControlSettings s =
     (let s1 = s\<lparr>localStorage_settings := NoItem\<rparr>;
          s2 = s1\<lparr>settingsEvents := settingsEvents s1 @ [DEFAULT_SETTINGS]\<rparr>
      in updateLocalSettings DEFAULT_SETTINGS s2)"

definition noSettings :: PartialSettings where
  "noSettings =
     \<lparr> p_maxLevelDb = None, p_baselineDb = None, p_showRealtimeDb = None,
       p_avgWindowSec = None, p_sliceSec = None, p_frameMs = None,
       p_scoreThresholdDbfs = None, p_segmentMergeGapMs = None,
       p_maxSegmentsPerMin = None, p_alertSoundEnabled = None, p_baselineRms = None \<rparr>"

section \<open>services/noiseService.ts\<close>

subsection \<open>What the environment supplies\<close>

text \<open>
  \<^verbatim>\<open>finalizeSlice\<close> reads the clock four times (\<^verbatim>\<open>durationMs\<close>, \<^verbatim>\<open>end\<close>, the
  \<^verbatim>\<open>now\<close> of \<^verbatim>\<open>saveSlice\<close>, the start stamp of \<^verbatim>\<open>resetSlice\<close>), draws a random
  id, and its \<^verbatim>\<open>localStorage.setItem\<close> either succeeds or throws.
\<close>

record FinalizeEnv =
  fin_durationNow :: real
  fin_endNow :: real
  fin_id :: string
  fin_saveNow :: real
  fin_writeOk :: bool
  fin_resetNow :: real

text \<open>
  One call of \<^verbatim>\<open>processFrame\<close>: the sample block read from the analyser, the
  \<^verbatim>\<open>Date.now()\<close> stored in \<^verbatim>\<open>frameTs\<close>, the one read at a rising or falling edge,
  the one in \<^verbatim>\<open>updateInterimScore\<close>, the one of the end-of-slice test, and what a
  finalisation then needs.
\<close>

record FrameEnv =
  fe_data :: "real list"
  fe_frameTs :: real
  fe_edgeNow :: real
  fe_interimNow :: real
  fe_checkNow :: real
  fe_finalize :: FinalizeEnv

subsection \<open>Construction\<close>

definition newNoiseService ::
  "PartialSettings item \<Rightarrow> NoiseSliceSummary list item \<Rightarrow> NoiseService" where
  "newNoiseService storedSettings storedSlices =
     updateLocalSettings (getNoiseControlSettings storedSettings)
       \<lparr> this_status = Paused,
         this_analyser = False,
         this_lastFrameTime = 0,
         this_baselineDb = 40,
         this_baselineRms = pow10 ((- 60) / 20),
         this_lastRms = 0,
         this_calibrationBuffer = [],
         this_isCalibrating = False,
         this_calibrationTargetDb = 0,
         this_calibrationCallback = False,
         this_warmupFramesRemaining = 0,
         this_ringBuffer = [],
         this_currentSliceStart = 0,
         this_sliceDbfsValues = [],
         this_sliceAboveThresholdDuration = 0,
         this_sliceFramesTotal = 0,
         this_sliceSampledDuration = 0,
         this_isAboveThreshold = False,
         this_segmentCount = 0,
         this_lastSegmentEndTs = 0,
         this_lastProcessedFrameTs = None,
         this_gapCount = 0,
         this_maxGapMs = 0,
         this_cachedCurrentScore = None,
         this_cachedCurrentScoreDetail = None,
         this_lastScoreCalcTime = 0,
         this_lastCompletedSlice = None,
         calibrationReports = [],
         localStorage_settings = storedSettings,
         localStorage_slices = storedSlices,
         settingsEvents = [] \<rparr>"

subsection \<open>Calibration\<close>

definition calibrate :: "real \<Rightarrow> bool \<Rightarrow> NoiseService \<Rightarrow> NoiseService" where
  "calibrate targetDb hasCallback s =
     (if this_status s \<noteq> Active then
        (if hasCallback then s\<lparr>calibrationReports := calibrationReports s @ [False]\<rparr> else s)
      else
        s\<lparr> this_isCalibrating := True,
           this_calibrationTargetDb := targetDb,
           this_calibrationBuffer := [],
           this_calibrationCallback := hasCallback \<rparr>)"

definition processCalibrationFrame :: "real \<Rightarrow> NoiseService \<Rightarrow> NoiseService" where
  "processCalibrationFrame r s =
     (if \<not> this_isCalibrating s then s
      else
        let s1 = s\<lparr>this_calibrationBuffer := this_calibrationBuffer s @ [r]\<rparr>;
            framesNeeded = 3000 / NOISE_ANALYSIS_FRAME_MS
        in if real (length (this_calibrationBuffer s1)) \<ge> framesNeeded then
             let sm = foldl (\<lambda>a b. a + b) 0 (this_calibrationBuffer s1);
                 avgRms = sm / real (length (this_calibrationBuffer s1));
                 s2 = s1\<lparr> this_isCalibrating := False,
                           this_baselineRms := avgRms,
                           this_baselineDb := this_calibrationTargetDb s1 \<rparr>;
                 s3 = saveNoiseControlSettings
                        (noSettings\<lparr> p_baselineDb := Some (this_calibrationTargetDb s2),
                                      p_baselineRms := Some avgRms \<rparr>) s2;
                 s4 = (if this_calibrationCallback s3
                       then s3\<lparr>calibrationReports := calibrationReports s3 @ [True]\<rparr>
                       else s3)
             in s4\<lparr>this_calibrationCallback := False\<rparr>
           else s1)"

subsection \<open>Slices\<close>

definition resetSlice :: "real \<Rightarrow> NoiseService \<Rightarrow> NoiseService" where
  "resetSlice now s =
     s\<lparr> this_currentSliceStart := now,
        this_sliceDbfsValues := [],
        this_sliceAboveThresholdDuration := 0,
        this_sliceFramesTotal := 0,
        this_sliceSampledDuration := 0,
        this_segmentCount := 0,
        this_isAboveThreshold := False,
        this_lastSegmentEndTs := 0,
        this_gapCount := 0,
        this_maxGapMs := 0,
        this_lastProcessedFrameTs := None,
        this_cachedCurrentScore := Some 100,
        this_cachedCurrentScoreDetail := None \<rparr>"

definition retentionMs :: real where
  "retentionMs = 14 * 24 * 60 * 60 * 1000"

text \<open>
  \<^verbatim>\<open>saveSlice\<close>. A stored payload that does not parse to an array makes the
  \<^verbatim>\<open>try\<close> block throw before the write, and so does a failing \<^verbatim>\<open>setItem\<close>; the
  \<^verbatim>\<open>catch\<close> only logs. \<^verbatim>\<open>shift()\<close> removes the first element, once.
\<close>

definition saveSlice :: "NoiseSliceSummary \<Rightarrow> real \<Rightarrow> bool \<Rightarrow> NoiseService \<Rightarrow> NoiseService" where
  "saveSlice slice now writeOk s =
     (case localStorage_slices s of
        BadItem \<Rightarrow> s
      | existing \<Rightarrow>
          let list = (case existing of Item l \<Rightarrow> l | _ \<Rightarrow> []) @ [slice];
              filteredList = filter (\<lambda>x. now - sl_end x < retentionMs) list;
              filteredList' = (if length filteredList > 1000 then tl filteredList else filteredList)
          in if writeOk then s\<lparr>localStorage_slices := Item filteredList'\<rparr> else s)"

definition getHistory :: "NoiseService \<Rightarrow> NoiseSliceSummary list" where
  "getHistory s = (case localStorage_slices s of Item l \<Rightarrow> l | _ \<Rightarrow> [])"

definition clearHistory :: "NoiseService \<Rightarrow> NoiseService" where
  "clearHistory s = s\<lparr>localStorage_slices := NoItem\<rparr>"

text \<open>
  The raw statistics that \<^verbatim>\<open>updateInterimScore\<close> and \<^verbatim>\<open>finalizeSlice\<close> both
  compute, by the same lines. Both call it on a non-empty \<^verbatim>\<open>sliceDbfsValues\<close> only,
  where \<^verbatim>\<open>Math.max(...)\<close> is the greatest element and the two quantiles, at 0.5 and
  0.95, are numbers (lemma \<open>computeQuantile_defined\<close> below).
\<close>

definition sliceRawStats :: "NoiseService \<Rightarrow> NoiseSliceRawStats" where
  "sliceRawStats s =
     \<lparr> avgDbfs = computeAvgDbfsFromDbfsArray (this_sliceDbfsValues s),
       maxDbfs = Max (set (this_sliceDbfsValues s)),
       p50Dbfs = the (computeQuantileFromDbfsArray (this_sliceDbfsValues s) (1 / 2)),
       p95Dbfs = the (computeQuantileFromDbfsArray (this_sliceDbfsValues s) (95 / 100)),
       overRatioDbfs =
         (if this_sliceSampledDuration s > 0
          then this_sliceAboveThresholdDuration s / this_sliceSampledDuration s
          else 0),
       segmentCount = real (this_segmentCount s),
       sampledDurationMs = Some (this_sliceSampledDuration s),
       gapCount = Some (real (this_gapCount s)),
       maxGapMs = Some (this_maxGapMs s) \<rparr>"

definition updateInterimScore :: "real \<Rightarrow> NoiseService \<Rightarrow> NoiseService" where
  "updateInterimScore now s =
     (if length (this_sliceDbfsValues s) < 10 then
        s\<lparr>this_cachedCurrentScore := Some 100, this_cachedCurrentScoreDetail := None\<rparr>
      else
        let rawStats = sliceRawStats s;
            durationMs = now - this_currentSliceStart s;
            r = computeNoiseSliceScore rawStats durationMs
        in s\<lparr> this_cachedCurrentScore := Some (score r),
              this_cachedCurrentScoreDetail := Some (scoreDetail r) \<rparr>)"

definition finalizeSlice :: "FinalizeEnv \<Rightarrow> NoiseService \<Rightarrow> NoiseService" where
  "finalizeSlice fin s =
     (if length (this_sliceDbfsValues s) = 0 then resetSlice (fin_resetNow fin) s
      else
        let rawStats = sliceRawStats s;
            displayAvgDb = computeDisplayDbFromRms
              \<lparr> dp_rms = pow10 (avgDbfs rawStats / 20),
                dp_baselineRms = this_baselineRms s,
                dp_baselineDb = this_baselineDb s \<rparr>;
            displayP95Db = computeDisplayDbFromRms
              \<lparr> dp_rms = pow10 (p95Dbfs rawStats / 20),
                dp_baselineRms = this_baselineRms s,
                dp_baselineDb = this_baselineDb s \<rparr>;
            durationMs = fin_durationNow fin - this_currentSliceStart s;
            r = computeNoiseSliceScore rawStats durationMs;
            sliceSummary =
              \<lparr> sl_id = fin_id fin,
                sl_start = this_currentSliceStart s,
                sl_end = fin_endNow fin,
                sl_frames = this_sliceFramesTotal s,
                sl_raw = rawStats,
                sl_display = \<lparr> avgDb = displayAvgDb, p95Db = displayP95Db \<rparr>,
                sl_score = score r,
                sl_scoreDetail = scoreDetail r \<rparr>;
            s1 = s\<lparr>this_lastCompletedSlice := Some sliceSummary\<rparr>;
            s2 = saveSlice sliceSummary (fin_saveNow fin) (fin_writeOk fin) s1
        in resetSlice (fin_resetNow fin) s2)"

subsection \<open>The steps of \<^verbatim>\<open>processFrame\<close>\<close>

text \<open>Step 2: the ring buffer, at most \<open>ringBufferCapacity\<close> points, oldest dropped.\<close>

definition pushRingBuffer :: "NoiseRealtimePoint \<Rightarrow> NoiseService \<Rightarrow> NoiseService" where
  "pushRingBuffer pt s =
     (let rb = this_ringBuffer s @ [pt]
      in s\<lparr>this_ringBuffer := (if length rb > ringBufferCapacity then tl rb else rb)\<rparr>)"

text \<open>
  Step 3: gap detection. Returns the local \<^verbatim>\<open>frameDuration\<close> with the state.
\<close>

definition detectGap :: "real \<Rightarrow> NoiseService \<Rightarrow> real \<times> NoiseService" where
  "detectGap frameTs s =
     (case this_lastProcessedFrameTs s of
        None \<Rightarrow> (NOISE_ANALYSIS_FRAME_MS, s\<lparr>this_lastProcessedFrameTs := Some frameTs\<rparr>)
      | Some lastTs \<Rightarrow>
          let dt = frameTs - lastTs;
              gapThresholdMs = max 1000 (NOISE_ANALYSIS_FRAME_MS * 5)
          in if dt > gapThresholdMs then
               (NOISE_ANALYSIS_FRAME_MS,
                s\<lparr> this_gapCount := this_gapCount s + 1,
                   this_maxGapMs := max (this_maxGapMs s) dt,
                   this_lastProcessedFrameTs := Some frameTs \<rparr>)
             else (dt, s\<lparr>this_lastProcessedFrameTs := Some frameTs\<rparr>))"

text \<open>Step 5: segment detection, with the \<^verbatim>\<open>Date.now()\<close> read at an edge.\<close>

definition detectSegment :: "bool \<Rightarrow> real \<Rightarrow> NoiseService \<Rightarrow> NoiseService" where
  "detectSegment isCurrentlyAbove edgeNow s =
     (if isCurrentlyAbove then
        (if \<not> this_isAboveThreshold s then
           let timeSinceLast = edgeNow - this_lastSegmentEndTs s;
               s1 = (if this_lastSegmentEndTs s = 0
                        \<or> timeSinceLast > NOISE_SCORE_SEGMENT_MERGE_GAP_MS
                     then s\<lparr>this_segmentCount := this_segmentCount s + 1\<rparr>
                     else s)
           in s1\<lparr>this_isAboveThreshold := True\<rparr>
         else s)
      else
        (if this_isAboveThreshold s then
           s\<lparr>this_isAboveThreshold := False, this_lastSegmentEndTs := edgeNow\<rparr>
         else s))"

text \<open>Steps 4 and 5: aggregation of a valid frame.\<close>

definition aggregateFrame :: "real \<Rightarrow> real \<Rightarrow> real \<Rightarrow> NoiseService \<Rightarrow> NoiseService" where
  "aggregateFrame dbfs frameDuration edgeNow s =
     (if dbfs \<ge> INVALID_DBFS_THRESHOLD then
        let s1 = s\<lparr> this_sliceDbfsValues := this_sliceDbfsValues s @ [dbfs],
                     this_sliceFramesTotal := this_sliceFramesTotal s + 1,
                     this_sliceSampledDuration := this_sliceSampledDuration s + frameDuration \<rparr>;
            isCurrentlyAbove = (dbfs > NOISE_SCORE_THRESHOLD_DBFS);
            s2 = (if isCurrentlyAbove
                  then s1\<lparr>this_sliceAboveThresholdDuration :=
                             this_sliceAboveThresholdDuration s1 + frameDuration\<rparr>
                  else s1)
        in detectSegment isCurrentlyAbove edgeNow s2
      else s)"

text \<open>
  Steps 1 to 6 of \<^verbatim>\<open>processFrame\<close>, for a frame past the warm-up: the amplitude, the
  calibration frame, the two levels, the ring buffer, the gap, the aggregation and
  the throttled interim score. The broadcast to the listeners that follows changes
  nothing in the service.
\<close>

definition measureFrame :: "real \<Rightarrow> FrameEnv \<Rightarrow> NoiseService \<Rightarrow> NoiseService" where
  "measureFrame nowTs env s =
     (let frameTs = fe_frameTs env;
          r = rms (computeRmsAndPeak (fe_data env));
          s1 = s\<lparr>this_lastRms := r\<rparr>;
          s2 = (if this_isCalibrating s1 then processCalibrationFrame r s1 else s1);
          dbfs = computeDbfsFromRms r;
          displayDb = computeDisplayDbFromRms
            \<lparr> dp_rms = r,
              dp_baselineRms = this_baselineRms s2,
              dp_baselineDb = this_baselineDb s2 \<rparr>;
          s3 = pushRingBuffer \<lparr> rp_t = frameTs, rp_dbfs = dbfs, rp_displayDb = displayDb \<rparr> s2;
          (frameDuration, s4) = detectGap frameTs s3;
          s5 = aggregateFrame dbfs frameDuration (fe_edgeNow env) s4
      in if nowTs - this_lastScoreCalcTime s5 > 250
         then (updateInterimScore (fe_interimNow env) s5)\<lparr>this_lastScoreCalcTime := nowTs\<rparr>
         else s5)"

text \<open>
  \<^verbatim>\<open>processFrame\<close>: nothing without an analyser, a countdown during the warm-up,
  otherwise the steps above and then step 7, the end-of-slice test.
\<close>

definition processFrame :: "real \<Rightarrow> FrameEnv \<Rightarrow> NoiseService \<Rightarrow> NoiseService" where
  "processFrame nowTs env s =
     (if \<not> this_analyser s then s
      else if this_warmupFramesRemaining s > 0 then
        s\<lparr>this_warmupFramesRemaining := this_warmupFramesRemaining s - 1\<rparr>
      else
        let s6 = measureFrame nowTs env s
        in if fe_checkNow env - this_currentSliceStart s6 \<ge> NOISE_ANALYSIS_SLICE_SEC * 1000
           then finalizeSlice (fe_finalize env) s6
           else s6)"

subsection \<open>Life cycle\<close>

text \<open>
  \<^verbatim>\<open>loop\<close>, one animation frame: \<open>now\<close> is \<^verbatim>\<open>performance.now()\<close>. Rescheduling is
  the caller's next call.
\<close>

definition loop :: "real \<Rightarrow> FrameEnv \<Rightarrow> NoiseService \<Rightarrow> NoiseService" where
  "loop now env s =
     (if this_status s \<noteq> Active \<or> \<not> this_analyser s then s
      else
        let dt = now - this_lastFrameTime s
        in if dt \<ge> NOISE_ANALYSIS_FRAME_MS
           then (processFrame now env s)\<lparr>this_lastFrameTime := now\<rparr>
           else s)"

text \<open>
  \<^verbatim>\<open>start\<close>, taken as one step: \<open>micOk\<close> says that building the audio chain (the
  microphone permission included) did not throw. On success it ends with the first
  call of \<^verbatim>\<open>loop\<close>.
\<close>

definition start :: "bool \<Rightarrow> real \<Rightarrow> real \<Rightarrow> FrameEnv \<Rightarrow> NoiseService \<Rightarrow> NoiseService" where
  "start micOk resetNow loopNow env s =
     (if this_status s = Active then s
      else
        let s1 = s\<lparr>this_status := Initializing, this_warmupFramesRemaining := 10\<rparr>
        in if micOk then
             loop loopNow env
               (resetSlice resetNow (s1\<lparr>this_analyser := True, this_status := Active\<rparr>))
           else s1\<lparr>this_status := PermissionDenied\<rparr>)"

definition stop :: "FinalizeEnv \<Rightarrow> NoiseService \<Rightarrow> NoiseService" where
  "stop fin s =
     (if this_status s = Paused then s
      else
        let s1 = (if length (this_sliceDbfsValues s) > 0 then finalizeSlice fin s else s)
        in s1\<lparr>this_status := Paused, this_analyser := False\<rparr>)"

section \<open>Runs, views and sample inputs\<close>

text \<open>
  The definitions of this section are not code of the repository: they name the runs
  the properties speak about, the part of the state a property concerns, and the
  concrete inputs at which properties are instantiated.
\<close>

subsection \<open>Runs\<close>


text \<open>Successive calls of \<^verbatim>\<open>processFrame\<close>, and successive animation frames.\<close>

definition runFrames :: "(real \<times> FrameEnv) list \<Rightarrow> NoiseService \<Rightarrow> NoiseService" where
  "runFrames frames s = fold (\<lambda>(nowTs, env). processFrame nowTs env) frames s"

definition runLoop :: "(real \<times> FrameEnv) list \<Rightarrow> NoiseService \<Rightarrow> NoiseService" where
  "runLoop frames s = fold (\<lambda>(now, env). loop now env) frames s"

definition frameRms :: "real \<times> FrameEnv \<Rightarrow> real" where
  "frameRms f = rms (computeRmsAndPeak (fe_data (snd f)))"


subsection \<open>The calibration side of the state\<close>

record CalView =
  cv_status :: NoiseStreamStatus
  cv_analyser :: bool
  cv_lastFrameTime :: real
  cv_warmup :: nat
  cv_isCalibrating :: bool
  cv_buffer :: "real list"
  cv_targetDb :: real
  cv_baselineRms :: real
  cv_baselineDb :: real
  cv_callback :: bool
  cv_reports :: "bool list"
  cv_settings :: "PartialSettings item"
  cv_events :: "NoiseControlSettings list"

definition calView :: "NoiseService \<Rightarrow> CalView" where
  "calView s =
     \<lparr> cv_status = this_status s,
       cv_analyser = this_analyser s,
       cv_lastFrameTime = this_lastFrameTime s,
       cv_warmup = this_warmupFramesRemaining s,
       cv_isCalibrating = this_isCalibrating s,
       cv_buffer = this_calibrationBuffer s,
       cv_targetDb = this_calibrationTargetDb s,
       cv_baselineRms = this_baselineRms s,
       cv_baselineDb = this_baselineDb s,
       cv_callback = this_calibrationCallback s,
       cv_reports = calibrationReports s,
       cv_settings = localStorage_settings s,
       cv_events = settingsEvents s \<rparr>"

text \<open>
  What \<^verbatim>\<open>processCalibrationFrame\<close> and \<^verbatim>\<open>processFrame\<close> do to that side, proved
  below to agree with the functions themselves (\<open>calView_processCalibrationFrame\<close>,
  \<open>calView_processFrame\<close>).
\<close>

definition calStep :: "real \<Rightarrow> CalView \<Rightarrow> CalView" where
  "calStep r v =
     (if \<not> cv_isCalibrating v then v
      else if length (cv_buffer v) + 1 < 60 then v\<lparr>cv_buffer := cv_buffer v @ [r]\<rparr>
      else
        let avgRms = sum_list (cv_buffer v @ [r]) / real (length (cv_buffer v) + 1);
            next = pinned (noSettings\<lparr> p_baselineDb := Some (cv_targetDb v),
                                        p_baselineRms := Some avgRms \<rparr>) (cv_settings v)
        in v\<lparr> cv_buffer := cv_buffer v @ [r],
              cv_isCalibrating := False,
              cv_baselineRms := avgRms,
              cv_baselineDb := cv_targetDb v,
              cv_callback := False,
              cv_reports := (if cv_callback v then cv_reports v @ [True] else cv_reports v),
              cv_settings := Item (toJSON next),
              cv_events := cv_events v @ [next] \<rparr>)"

definition calFrame :: "real \<Rightarrow> CalView \<Rightarrow> CalView" where
  "calFrame r v =
     (if \<not> cv_analyser v then v
      else if cv_warmup v > 0 then v\<lparr>cv_warmup := cv_warmup v - 1\<rparr>
      else calStep r v)"

subsection \<open>The window side of the state\<close>



subsection \<open>Sample inputs\<close>

definition exampleRaw :: NoiseSliceRawStats where
  "exampleRaw =
     \<lparr> avgDbfs = - 60, maxDbfs = - 55, p50Dbfs = - 60, p95Dbfs = - 56, overRatioDbfs = 0,
       segmentCount = 0, sampledDurationMs = Some 30000, gapCount = Some 0,
       maxGapMs = Some 0 \<rparr>"


definition exampleFinalize :: "real \<Rightarrow> FinalizeEnv" where
  "exampleFinalize t =
     \<lparr> fin_durationNow = t, fin_endNow = t, fin_id = ''k3j9x0'', fin_saveNow = t,
       fin_writeOk = True, fin_resetNow = t \<rparr>"

text \<open>A block of 2048 samples (the analyser's \<^verbatim>\<open>fftSize\<close>) of constant value \<open>c\<close>.\<close>

definition exampleFrame :: "real \<Rightarrow> real \<Rightarrow> FrameEnv" where
  "exampleFrame c t =
     \<lparr> fe_data = replicate 2048 c, fe_frameTs = t, fe_edgeNow = t, fe_interimNow = t,
       fe_checkNow = t, fe_finalize = exampleFinalize t \<rparr>"

text \<open>\<open>k\<close> such frames, 50 ms apart.\<close>

definition exampleFrames :: "real \<Rightarrow> real \<Rightarrow> real \<Rightarrow> nat \<Rightarrow> (real \<times> FrameEnv) list" where
  "exampleFrames c perf0 t0 k =
     map (\<lambda>i. (perf0 + 50 * real i, exampleFrame c (t0 + 50 * real i))) [0..<k]"

text \<open>A service started on empty storage whose ten warm-up frames have passed.\<close>

definition warmService :: NoiseService where
  "warmService =
     runFrames (exampleFrames 0 5050 1700000000050 9)
       (start True 1700000000000 5000 (exampleFrame 0 1700000000000)
          (newNoiseService NoItem NoItem))"

text \<open>
  A calibration to 55 dB that has collected 59 of its 60 frames, at amplitude 1/2;
  then a stop, a new start, the warm-up, and one frame at amplitude 1/10.
\<close>

definition collecting59 :: NoiseService where
  "collecting59 =
     runFrames (exampleFrames (1 / 2) 6000 1700000001000 59) (calibrate 55 True warmService)"

definition resumed :: NoiseService where
  "resumed =
     runFrames (exampleFrames (1 / 10) 15500 1700000010500 1)
       (runFrames (exampleFrames 0 15050 1700000010050 9)
          (start True 1700000010000 15000 (exampleFrame 0 1700000010000)
             (stop (exampleFinalize 1700000004000) collecting59)))"


section \<open>Properties of the scoring function\<close>

lemmas score_defs = sustainedDiff_of_def sustainedPenalty_of_def timePenalty_of_def
  effectiveDurationMs_of_def minutes_of_def segmentsPerMin_of_def segmentPenalty_of_def
  totalPenalty_of_def scoreRaw_of_def score_of_def clamp01_def Math_round_def
  NOISE_SCORE_THRESHOLD_DBFS_def NOISE_SCORE_MAX_SEGMENTS_PER_MIN_def

lemmas const_defs = NOISE_ANALYSIS_SLICE_SEC_def NOISE_ANALYSIS_FRAME_MS_def
  NOISE_SCORE_THRESHOLD_DBFS_def NOISE_SCORE_SEGMENT_MERGE_GAP_MS_def
  NOISE_SCORE_MAX_SEGMENTS_PER_MIN_def INVALID_DBFS_THRESHOLD_def

text \<open>
  Claim C1. With the threshold at -50 dBFS, raw statistics with median level -44 dBFS,
  over-threshold ratio 0.15, three segments and one minute of sampled time give a
  sustained penalty of 1, a time penalty of 1/2, a segment penalty of 1/2, a
  weighted total penalty of 7/10 and the score 30, whatever the other fields of the
  statistics and the physical duration are.
\<close>

theorem computeNoiseSliceScore_scenario:
  "sustainedPenalty (scoreDetail (computeNoiseSliceScore
       (raw\<lparr>p50Dbfs := - 44, overRatioDbfs := 15 / 100, segmentCount := 3,
             sampledDurationMs := Some 60000\<rparr>) durationMs)) = 1
   \<and> timePenalty (scoreDetail (computeNoiseSliceScore
       (raw\<lparr>p50Dbfs := - 44, overRatioDbfs := 15 / 100, segmentCount := 3,
             sampledDurationMs := Some 60000\<rparr>) durationMs)) = 1 / 2
   \<and> segmentPenalty (scoreDetail (computeNoiseSliceScore
       (raw\<lparr>p50Dbfs := - 44, overRatioDbfs := 15 / 100, segmentCount := 3,
             sampledDurationMs := Some 60000\<rparr>) durationMs)) = 1 / 2
   \<and> totalPenalty_of
       (raw\<lparr>p50Dbfs := - 44, overRatioDbfs := 15 / 100, segmentCount := 3,
             sampledDurationMs := Some 60000\<rparr>) durationMs = 7 / 10
   \<and> score (computeNoiseSliceScore
       (raw\<lparr>p50Dbfs := - 44, overRatioDbfs := 15 / 100, segmentCount := 3,
             sampledDurationMs := Some 60000\<rparr>) durationMs) = 30"
  by (simp add: computeNoiseSliceScore_def score_defs)

lemma clamp01_mono: "a \<le> b \<Longrightarrow> clamp01 a \<le> clamp01 b"
  by (simp add: clamp01_def)

lemma Math_round_mono: "a \<le> b \<Longrightarrow> Math_round a \<le> Math_round b"
  by (simp add: Math_round_def floor_mono)

lemma minutes_pos: "0 < minutes_of raw d"
  by (simp add: minutes_of_def max_def)

lemma score_antimono_penalty:
  assumes "totalPenalty_of r1 d \<le> totalPenalty_of r2 d"
  shows "score_of r2 d \<le> score_of r1 d"
proof -
  have "scoreRaw_of r2 d * 10 \<le> scoreRaw_of r1 d * 10"
    using assms by (simp add: scoreRaw_of_def)
  then have "Math_round (scoreRaw_of r2 d * 10) / 10 \<le> Math_round (scoreRaw_of r1 d * 10) / 10"
    by (simp add: Math_round_mono divide_right_mono)
  then show ?thesis
    unfolding score_of_def by linarith
qed

lemma score_field: "score (computeNoiseSliceScore raw d) = score_of raw d"
  by (simp add: computeNoiseSliceScore_def)

lemma sustainedPenalty_mono:
  "a \<le> b \<Longrightarrow> sustainedPenalty_of (raw\<lparr>p50Dbfs := a\<rparr>) \<le> sustainedPenalty_of (raw\<lparr>p50Dbfs := b\<rparr>)"
  unfolding sustainedPenalty_of_def sustainedDiff_of_def
  by (intro clamp01_mono divide_right_mono) auto

lemma timePenalty_mono:
  "a \<le> b \<Longrightarrow> timePenalty_of (raw\<lparr>overRatioDbfs := a\<rparr>) \<le> timePenalty_of (raw\<lparr>overRatioDbfs := b\<rparr>)"
  unfolding timePenalty_of_def
  by (intro clamp01_mono divide_right_mono) auto

lemma minutes_segmentCount:
  "minutes_of (raw\<lparr>segmentCount := a\<rparr>) d = minutes_of raw d"
  by (simp add: minutes_of_def effectiveDurationMs_of_def)

lemma segmentPenalty_mono:
  assumes "a \<le> b"
  shows "segmentPenalty_of (raw\<lparr>segmentCount := a\<rparr>) d \<le> segmentPenalty_of (raw\<lparr>segmentCount := b\<rparr>) d"
proof -
  have "a / minutes_of raw d \<le> b / minutes_of raw d"
    using assms minutes_pos [of raw d] by (simp add: divide_right_mono)
  then show ?thesis
    unfolding segmentPenalty_of_def segmentsPerMin_of_def
    by (intro clamp01_mono divide_right_mono)
      (auto simp: NOISE_SCORE_MAX_SEGMENTS_PER_MIN_def minutes_segmentCount)
qed

text \<open>
  Claim C7. The score never increases when one of the median level, the
  over-threshold ratio or the segment count increases while every other field of the
  raw statistics and the duration stay the same.
\<close>

theorem score_monotone:
  assumes "a1 \<le> b1" and "a2 \<le> b2" and "a3 \<le> b3"
  shows "score (computeNoiseSliceScore (raw\<lparr>p50Dbfs := b1\<rparr>) d)
           \<le> score (computeNoiseSliceScore (raw\<lparr>p50Dbfs := a1\<rparr>) d)
    \<and> score (computeNoiseSliceScore (raw\<lparr>overRatioDbfs := b2\<rparr>) d)
           \<le> score (computeNoiseSliceScore (raw\<lparr>overRatioDbfs := a2\<rparr>) d)
    \<and> score (computeNoiseSliceScore (raw\<lparr>segmentCount := b3\<rparr>) d)
           \<le> score (computeNoiseSliceScore (raw\<lparr>segmentCount := a3\<rparr>) d)"
proof -
  have "totalPenalty_of (raw\<lparr>p50Dbfs := a1\<rparr>) d \<le> totalPenalty_of (raw\<lparr>p50Dbfs := b1\<rparr>) d"
    using sustainedPenalty_mono [OF assms(1), of raw]
    by (simp add: totalPenalty_of_def timePenalty_of_def segmentPenalty_of_def
        segmentsPerMin_of_def minutes_of_def effectiveDurationMs_of_def)
  then have p: "score (computeNoiseSliceScore (raw\<lparr>p50Dbfs := b1\<rparr>) d)
           \<le> score (computeNoiseSliceScore (raw\<lparr>p50Dbfs := a1\<rparr>) d)"
    by (simp add: score_field score_antimono_penalty)
  have "totalPenalty_of (raw\<lparr>overRatioDbfs := a2\<rparr>) d \<le> totalPenalty_of (raw\<lparr>overRatioDbfs := b2\<rparr>) d"
    using timePenalty_mono [OF assms(2), of raw]
    by (simp add: totalPenalty_of_def sustainedPenalty_of_def sustainedDiff_of_def
        segmentPenalty_of_def segmentsPerMin_of_def minutes_of_def effectiveDurationMs_of_def)
  then have q: "score (computeNoiseSliceScore (raw\<lparr>overRatioDbfs := b2\<rparr>) d)
           \<le> score (computeNoiseSliceScore (raw\<lparr>overRatioDbfs := a2\<rparr>) d)"
    by (simp add: score_field score_antimono_penalty)
  have "totalPenalty_of (raw\<lparr>segmentCount := a3\<rparr>) d \<le> totalPenalty_of (raw\<lparr>segmentCount := b3\<rparr>) d"
    using segmentPenalty_mono [OF assms(3), of raw d]
    by (simp add: totalPenalty_of_def sustainedPenalty_of_def sustainedDiff_of_def
        timePenalty_of_def)
  then have r: "score (computeNoiseSliceScore (raw\<lparr>segmentCount := b3\<rparr>) d)
           \<le> score (computeNoiseSliceScore (raw\<lparr>segmentCount := a3\<rparr>) d)"
    by (simp add: score_field score_antimono_penalty)
  from p q r show ?thesis by simp
qed

theorem score_monotone_witness:
  "(- 47 :: real) \<le> - 44 \<and> (1 / 10 :: real) \<le> 2 / 10 \<and> (1 :: real) \<le> 3
   \<and> score (computeNoiseSliceScore (exampleRaw\<lparr>p50Dbfs := - 44\<rparr>) 30000)
       \<le> score (computeNoiseSliceScore (exampleRaw\<lparr>p50Dbfs := - 47\<rparr>) 30000)
   \<and> score (computeNoiseSliceScore (exampleRaw\<lparr>overRatioDbfs := 2 / 10\<rparr>) 30000)
       \<le> score (computeNoiseSliceScore (exampleRaw\<lparr>overRatioDbfs := 1 / 10\<rparr>) 30000)
   \<and> score (computeNoiseSliceScore (exampleRaw\<lparr>segmentCount := 3\<rparr>) 30000)
       \<le> score (computeNoiseSliceScore (exampleRaw\<lparr>segmentCount := 1\<rparr>) 30000)"
proof -
  have h1: "(- 47 :: real) \<le> - 44" by simp
  have h2: "(1 / 10 :: real) \<le> 2 / 10" by simp
  have h3: "(1 :: real) \<le> 3" by simp
  from score_monotone [OF h1 h2 h3, of exampleRaw 30000] h1 h2 h3 show ?thesis by blast
qed

section \<open>Properties of the level arithmetic\<close>

lemma rmsPeakLoop_eq:
  "rmsPeakLoop xs sm pk = (sm + (\<Sum>v\<leftarrow>xs. v * v), Max (insert pk ((\<lambda>v. \<bar>v\<bar>) ` set xs)))"
proof (induction xs arbitrary: sm pk)
  case Nil
  then show ?case by simp
next
  case (Cons v vs)
  have fin: "finite ((\<lambda>v. \<bar>v\<bar>) ` set vs)" by simp
  have "Max (insert (if \<bar>v\<bar> > pk then \<bar>v\<bar> else pk) ((\<lambda>v. \<bar>v\<bar>) ` set vs))
        = Max (insert pk (insert \<bar>v\<bar> ((\<lambda>v. \<bar>v\<bar>) ` set vs)))"
  proof (cases "(\<lambda>v. \<bar>v\<bar>) ` set vs = {}")
    case True
    then show ?thesis by (simp add: max_def)
  next
    case False
    then show ?thesis using fin by (simp add: max_def)
  qed
  then show ?case using Cons.IH by (simp add: Let_def add.assoc)
qed

lemma Max_abs_nonneg:
  assumes "xs \<noteq> []"
  shows "Max (insert 0 ((\<lambda>v. \<bar>v\<bar>) ` set xs)) = Max ((\<lambda>v::real. \<bar>v\<bar>) ` set xs)"
proof -
  have ne: "(\<lambda>v::real. \<bar>v\<bar>) ` set xs \<noteq> {}" using assms by simp
  have "0 \<le> Max ((\<lambda>v::real. \<bar>v\<bar>) ` set xs)"
  proof -
    obtain x where "x \<in> set xs" using assms by (cases xs) auto
    then have "\<bar>x\<bar> \<le> Max ((\<lambda>v::real. \<bar>v\<bar>) ` set xs)" by simp
    then show ?thesis by linarith
  qed
  then show ?thesis using ne by (simp add: max_def)
qed

text \<open>
  Claim C10. \<^verbatim>\<open>computeRmsAndPeak\<close> returns on every sample block. On the empty block
  it returns rms 0 and peak 0, the divisor being floored at 1. On every block the rms
  is the square root of the sum of squares over the floored length and the peak is
  the greatest absolute sample value (0 when there is none); on a non-empty block
  the divisor is the length itself.
\<close>

theorem computeRmsAndPeak_total:
  "computeRmsAndPeak [] = \<lparr> rms = 0, peak = 0 \<rparr>
   \<and> rms (computeRmsAndPeak data) = sqrt ((\<Sum>v\<leftarrow>data. v * v) / max 1 (real (length data)))
   \<and> peak (computeRmsAndPeak data) = Max (insert 0 ((\<lambda>v. \<bar>v\<bar>) ` set data))
   \<and> (data \<noteq> [] \<longrightarrow>
        rms (computeRmsAndPeak data) = sqrt ((\<Sum>v\<leftarrow>data. v * v) / real (length data))
        \<and> peak (computeRmsAndPeak data) = Max ((\<lambda>v. \<bar>v\<bar>) ` set data))"
proof -
  have a: "computeRmsAndPeak [] = \<lparr> rms = 0, peak = 0 \<rparr>"
    by (simp add: computeRmsAndPeak_def)
  have b: "rms (computeRmsAndPeak data) = sqrt ((\<Sum>v\<leftarrow>data. v * v) / max 1 (real (length data)))"
    by (simp add: computeRmsAndPeak_def rmsPeakLoop_eq)
  have c: "peak (computeRmsAndPeak data) = Max (insert 0 ((\<lambda>v. \<bar>v\<bar>) ` set data))"
    by (simp add: computeRmsAndPeak_def rmsPeakLoop_eq)
  have d: "max 1 (real (length data)) = real (length data)" if "data \<noteq> []"
    using that by (cases data) auto
  show ?thesis using a b c d Max_abs_nonneg [of data] by simp
qed

theorem computeRmsAndPeak_total_witness:
  "[3, - 4] \<noteq> ([] :: real list)
   \<and> rms (computeRmsAndPeak [3, - 4]) = sqrt (25 / 2)
   \<and> peak (computeRmsAndPeak [3, - 4]) = 4"
  using computeRmsAndPeak_total [of "[3, - 4]"] by simp

lemma rms_replicate:
  assumes "0 < n"
  shows "rms (computeRmsAndPeak (replicate n c)) = \<bar>c\<bar>"
proof -
  have l: "rmsPeakLoop (replicate n c) sm pk
             = (sm + real n * (c * c), if n = 0 then pk else max pk \<bar>c\<bar>)" for sm pk
  proof (induction n arbitrary: sm pk)
    case 0
    then show ?case by simp
  next
    case (Suc n)
    then show ?case by (simp add: Let_def algebra_simps max_def)
  qed
  have "real n * (c * c) / real n = c * c" using assms by simp
  then show ?thesis using assms
    by (simp add: computeRmsAndPeak_def l max_def)
qed

text \<open>The level of a frame is always within the physical range.\<close>

lemma computeDbfs_in_range:
  "DBFS_MIN_POSSIBLE \<le> computeDbfsFromRms r \<and> computeDbfsFromRms r \<le> DBFS_MAX_POSSIBLE"
  by (simp add: computeDbfsFromRms_def Let_def DBFS_MIN_POSSIBLE_def DBFS_MAX_POSSIBLE_def)

lemma computeAvg_in_range:
  "DBFS_MIN_POSSIBLE \<le> computeAvgDbfsFromDbfsArray xs
   \<and> computeAvgDbfsFromDbfsArray xs \<le> DBFS_MAX_POSSIBLE"
  by (simp add: computeAvgDbfsFromDbfsArray_def Let_def DBFS_MIN_POSSIBLE_def
      DBFS_MAX_POSSIBLE_def)

lemma quantile_index_bounds:
  fixes p :: real and n :: nat
  assumes "0 \<le> p" "p \<le> 1" "0 < n"
  shows "0 \<le> \<lfloor>(real n - 1) * p\<rfloor>" "\<lfloor>(real n - 1) * p\<rfloor> < int n"
    "0 \<le> \<lceil>(real n - 1) * p\<rceil>" "\<lceil>(real n - 1) * p\<rceil> < int n"
proof -
  let ?idx = "(real n - 1) * p"
  have n1: "0 \<le> real n - 1" using assms(3) by simp
  have lo: "0 \<le> ?idx" using n1 assms(1) by simp
  have "?idx \<le> (real n - 1) * 1" using n1 assms(2) by (intro mult_left_mono) auto
  then have hi: "?idx \<le> real n - 1" by simp
  show "0 \<le> \<lfloor>?idx\<rfloor>" using lo by simp
  have "\<lceil>0::real\<rceil> \<le> \<lceil>?idx\<rceil>" using lo by (rule ceiling_mono)
  then show "0 \<le> \<lceil>?idx\<rceil>" by simp
  have "\<lceil>?idx\<rceil> \<le> \<lceil>real n - 1\<rceil>" using hi by (rule ceiling_mono)
  also have "\<lceil>real n - 1\<rceil> = int n - 1" by (simp add: ceiling_diff_one)
  finally show c: "\<lceil>?idx\<rceil> < int n" by simp
  have "\<lfloor>?idx\<rfloor> \<le> \<lceil>?idx\<rceil>" by (simp add: floor_le_ceiling)
  then show "\<lfloor>?idx\<rfloor> < int n" using c by linarith
qed

text \<open>
  For \<open>p\<close> between 0 and 1 both array reads of the quantile are inside the array: the
  result is a number. This is what lets \<open>sliceRawStats\<close> take the quantiles at 0.5
  and 0.95 as numbers.
\<close>

lemma computeQuantile_defined:
  assumes "0 \<le> p" "p \<le> 1"
  shows "\<exists>v. computeQuantileFromDbfsArray xs p = Some v"
proof (cases "xs = []")
  case True
  then show ?thesis by (simp add: computeQuantileFromDbfsArray_def)
next
  case False
  then have n: "0 < length xs" by simp
  let ?arr = "sort (map (\<lambda>db. pow10 (db / 20)) xs)"
  note b = quantile_index_bounds [OF assms n]
  have "arrayRead ?arr \<lfloor>(real (length xs) - 1) * p\<rfloor> \<noteq> None"
    using b(1,2) by (simp add: arrayRead_def)
  moreover have "arrayRead ?arr \<lceil>(real (length xs) - 1) * p\<rceil> \<noteq> None"
    using b(3,4) by (simp add: arrayRead_def)
  ultimately show ?thesis
    using False by (auto simp: computeQuantileFromDbfsArray_def Let_def split: option.splits)
qed

text \<open>
  On levels that are themselves within [-100, 0], as every level the service
  aggregates is (\<open>computeDbfs_in_range\<close>), the quantile lies within [-100, 0]
  without a clamp.
\<close>

lemma computeQuantile_in_range:
  assumes "0 \<le> p" "p \<le> 1" and lv: "\<forall>x \<in> set xs. - 100 \<le> x \<and> x \<le> 0"
  shows "\<exists>v. computeQuantileFromDbfsArray xs p = Some v \<and> - 100 \<le> v \<and> v \<le> 0"
proof (cases "xs = []")
  case True
  then show ?thesis by (simp add: computeQuantileFromDbfsArray_def DBFS_MIN_POSSIBLE_def)
next
  case False
  then have n: "0 < length xs" by simp
  define arr where "arr = sort (map (\<lambda>db. pow10 (db / 20)) xs)"
  define idx where "idx = (real (length xs) - 1) * p"
  define w where "w = idx - of_int \<lfloor>idx\<rfloor>"
  have len: "length arr = length xs" by (simp add: arr_def)
  have el: "10 powr (- 5) \<le> e \<and> e \<le> 1" if "e \<in> set arr" for e
  proof -
    from that obtain x where x: "x \<in> set xs" "e = 10 powr (x / 20)"
      by (auto simp: arr_def pow10_def)
    then have r: "- 5 \<le> x / 20" "x / 20 \<le> 0" using lv by auto
    have "(10::real) powr (- 5) \<le> 10 powr (x / 20)"
      using r(1) by (rule powr_mono) simp
    moreover have "(10::real) powr (x / 20) \<le> 10 powr 0"
      using r(2) by (rule powr_mono) simp
    ultimately show ?thesis using x(2) by simp
  qed
  note b = quantile_index_bounds [OF assms(1,2) n]
  have inside: "arrayRead arr i = Some (arr ! nat i) \<and> arr ! nat i \<in> set arr"
    if "0 \<le> i" "i < int (length xs)" for i
  proof -
    have "nat i < length arr" using that len by linarith
    then have "arr ! nat i \<in> set arr" by (rule nth_mem)
    then show ?thesis using that by (simp add: arrayRead_def len)
  qed
  have lo: "arrayRead arr \<lfloor>idx\<rfloor> = Some (arr ! nat \<lfloor>idx\<rfloor>)" "arr ! nat \<lfloor>idx\<rfloor> \<in> set arr"
    using inside [OF b(1,2)] by (simp_all add: idx_def)
  have hi: "arrayRead arr \<lceil>idx\<rceil> = Some (arr ! nat \<lceil>idx\<rceil>)" "arr ! nat \<lceil>idx\<rceil> \<in> set arr"
    using inside [OF b(3,4)] by (simp_all add: idx_def)
  have w: "0 \<le> w" "w \<le> 1" unfolding w_def by linarith+
  define q where "q = (if \<lfloor>idx\<rfloor> = \<lceil>idx\<rceil> then arr ! nat \<lfloor>idx\<rfloor>
      else arr ! nat \<lfloor>idx\<rfloor> * (1 - w) + arr ! nat \<lceil>idx\<rceil> * w)"
  have qr: "10 powr (- 5) \<le> q \<and> q \<le> 1"
  proof (cases "\<lfloor>idx\<rfloor> = \<lceil>idx\<rceil>")
    case True
    then show ?thesis using el [OF lo(2)] by (simp add: q_def)
  next
    case False
    let ?a = "arr ! nat \<lfloor>idx\<rfloor>" and ?b = "arr ! nat \<lceil>idx\<rceil>"
    have a: "10 powr (- 5) \<le> ?a" "?a \<le> 1" and bb: "10 powr (- 5) \<le> ?b" "?b \<le> 1"
      using el [OF lo(2)] el [OF hi(2)] by simp_all
    have "10 powr (- 5) * (1 - w) + 10 powr (- 5) * w \<le> ?a * (1 - w) + ?b * w"
      using a(1) bb(1) w by (intro add_mono mult_right_mono) auto
    moreover have "?a * (1 - w) + ?b * w \<le> 1 * (1 - w) + 1 * w"
      using a(2) bb(2) w by (intro add_mono mult_right_mono) auto
    ultimately show ?thesis using False by (simp add: q_def algebra_simps)
  qed
  have res: "computeQuantileFromDbfsArray xs p = Some (20 * Math_log10 (max q (1 / 10 ^ 12)))"
    using False lo(1) hi(1)
    by (simp add: computeQuantileFromDbfsArray_def Let_def arr_def [symmetric] len
        idx_def [symmetric] w_def [symmetric] q_def)
  have e12: "(1::real) / 10 ^ 12 \<le> 10 powr (- 5)"
    by (simp add: powr_minus_divide)
  have qpos: "0 < q" using qr by (smt (verit) powr_gt_zero)
  have m: "max q (1 / 10 ^ 12) = q" using qr e12 by (simp add: max_def)
  have "log 10 (10 powr (- 5)) \<le> log 10 q"
    by (subst log_le_cancel_iff) (use qr qpos in simp_all)
  moreover have "log 10 (10 powr (- 5)) = (- 5 :: real)"
    by (rule log_powr_cancel) simp_all
  moreover have "log 10 q \<le> log 10 1"
    by (subst log_le_cancel_iff) (use qr qpos in simp_all)
  ultimately have "- 100 \<le> 20 * log 10 q" "20 * log 10 q \<le> 0"
    by simp_all
  then show ?thesis
    unfolding res m by (simp add: Math_log10_def)
qed


text \<open>
  Claim C6, at the inputs where the code departs from it. The energy average is
  clamped to [-100, 0] on every input (\<open>computeAvg_in_range\<close>), but the quantile is
  returned without a clamp: the median of the one-element array [-150] is -150, below
  the least possible level, and that of [5] is 5, above the greatest.
\<close>

theorem computeQuantile_not_clamped:
  "computeQuantileFromDbfsArray [- 150] (1 / 2) = Some (- 150)
   \<and> \<not> (DBFS_MIN_POSSIBLE \<le> - 150)
   \<and> computeQuantileFromDbfsArray [5] (1 / 2) = Some 5 \<and> \<not> (5 \<le> DBFS_MAX_POSSIBLE)"
proof -
  have "(1::real) \<le> 10 powr (1 / 4)" by (simp add: ge_one_powr_ge_zero)
  then have a: "max (10 powr (1 / 4)) (1 / 10 ^ 12) = (10::real) powr (1 / 4)"
    by (simp add: max_def)
  have "(10::real) powr (- (15 / 2)) = 10 powr (- 12) * 10 powr (9 / 2)"
    by (simp add: powr_add [symmetric])
  moreover have "(1::real) \<le> 10 powr (9 / 2)" by (simp add: ge_one_powr_ge_zero)
  moreover have "(10::real) powr (- 12) = 1 / 10 ^ 12"
    by (simp add: powr_minus_divide)
  ultimately have "(1::real) / 10 ^ 12 \<le> 10 powr (- (15 / 2))"
    by (simp add: mult_le_cancel_left1)
  then have b: "max (10 powr (- (15 / 2))) (1 / 10 ^ 12) = (10::real) powr (- (15 / 2))"
    by (simp add: max_def)
  have q5: "computeQuantileFromDbfsArray [5] (1 / 2) = Some 5"
    using a by (simp add: computeQuantileFromDbfsArray_def arrayRead_def pow10_def Math_log10_def)
  have q150: "computeQuantileFromDbfsArray [- 150] (1 / 2) = Some (- 150)"
    using b by (simp add: computeQuantileFromDbfsArray_def arrayRead_def pow10_def Math_log10_def)
  show ?thesis
    using q5 q150 by (simp add: DBFS_MAX_POSSIBLE_def DBFS_MIN_POSSIBLE_def)
qed

section \<open>Properties of the settings write path\<close>

lemma get_toJSON: "getNoiseControlSettings (Item (toJSON c)) = c"
  by (simp add: getNoiseControlSettings_def toJSON_def spread_def DEFAULT_SETTINGS_def
      split: option.splits)

lemma save_storage:
  "localStorage_settings (saveNoiseControlSettings settings s)
     = Item (toJSON (pinned settings (localStorage_settings s)))"
  by (simp add: saveNoiseControlSettings_def updateLocalSettings_def Let_def split: option.splits)

lemma save_events:
  "settingsEvents (saveNoiseControlSettings settings s)
     = settingsEvents s @ [pinned settings (localStorage_settings s)]"
  by (simp add: saveNoiseControlSettings_def updateLocalSettings_def Let_def split: option.splits)

text \<open>
  Claim C5. Whatever partial settings object is passed to
  \<^verbatim>\<open>saveNoiseControlSettings\<close> and whatever was stored before, the settings then
  stored are the ones carried by the event that is dispatched, their five fixed
  fields are 30, 50, -50, 500 and 6, and each caller-mutable field has the value the
  caller supplied (the value it had before, where the caller supplied none).
\<close>

theorem saveNoiseControlSettings_pins:
  fixes settings :: PartialSettings and s :: NoiseService
  defines "s' \<equiv> saveNoiseControlSettings settings s"
  defines "stored \<equiv> getNoiseControlSettings (localStorage_settings s')"
  defines "current \<equiv> getNoiseControlSettings (localStorage_settings s)"
  shows "localStorage_settings s' = Item (toJSON stored)
    \<and> settingsEvents s' = settingsEvents s @ [stored]
    \<and> sliceSec stored = 30 \<and> frameMs stored = 50 \<and> scoreThresholdDbfs stored = - 50
    \<and> segmentMergeGapMs stored = 500 \<and> maxSegmentsPerMin stored = 6
    \<and> baselineDb stored = (case p_baselineDb settings of Some v \<Rightarrow> v | None \<Rightarrow> baselineDb current)
    \<and> baselineRms stored =
        (case p_baselineRms settings of Some v \<Rightarrow> Some v | None \<Rightarrow> baselineRms current)
    \<and> maxLevelDb stored = (case p_maxLevelDb settings of Some v \<Rightarrow> v | None \<Rightarrow> maxLevelDb current)
    \<and> showRealtimeDb stored =
        (case p_showRealtimeDb settings of Some v \<Rightarrow> v | None \<Rightarrow> showRealtimeDb current)
    \<and> avgWindowSec stored =
        (case p_avgWindowSec settings of Some v \<Rightarrow> v | None \<Rightarrow> avgWindowSec current)
    \<and> alertSoundEnabled stored =
        (case p_alertSoundEnabled settings of Some v \<Rightarrow> v | None \<Rightarrow> alertSoundEnabled current)"
proof -
  have st: "stored = pinned settings (localStorage_settings s)"
    unfolding stored_def s'_def by (simp add: save_storage get_toJSON)
  have ls: "localStorage_settings s' = Item (toJSON stored)"
    unfolding st s'_def by (rule save_storage)
  have ev: "settingsEvents s' = settingsEvents s @ [stored]"
    unfolding st s'_def by (rule save_events)
  show ?thesis
    unfolding ev ls unfolding st current_def
    by (simp add: pinned_def spread_def Let_def const_defs)
qed

theorem saveNoiseControlSettings_pins_witness:
  "getNoiseControlSettings (localStorage_settings
      (saveNoiseControlSettings
         (noSettings\<lparr> p_baselineDb := Some 50, p_baselineRms := Some (5 / 1000),
                       p_sliceSec := Some 5, p_frameMs := Some 1000,
                       p_scoreThresholdDbfs := Some 0, p_segmentMergeGapMs := Some 60000,
                       p_maxSegmentsPerMin := Some 1000 \<rparr>)
         (newNoiseService NoItem NoItem)))
   = DEFAULT_SETTINGS\<lparr> baselineDb := 50, baselineRms := Some (5 / 1000) \<rparr>"
proof -
  have ls: "localStorage_settings (newNoiseService NoItem NoItem) = NoItem"
    by (simp add: newNoiseService_def updateLocalSettings_def Let_def split: option.splits)
  show ?thesis
    using saveNoiseControlSettings_pins
      [of "noSettings\<lparr> p_baselineDb := Some 50, p_baselineRms := Some (5 / 1000),
                       p_sliceSec := Some 5, p_frameMs := Some 1000,
                       p_scoreThresholdDbfs := Some 0, p_segmentMergeGapMs := Some 60000,
                       p_maxSegmentsPerMin := Some 1000 \<rparr>"
          "newNoiseService NoItem NoItem"]
    by (simp add: ls getNoiseControlSettings_def DEFAULT_SETTINGS_def noSettings_def const_defs
        DEFAULT_DISPLAY_BASELINE_DB_def)
qed

section \<open>Properties of the slice store\<close>



lemma getHistory_saveSlice:
  assumes "localStorage_slices s \<noteq> BadItem"
  shows "getHistory (saveSlice slice now True s) =
     (let f = filter (\<lambda>x. now - sl_end x < retentionMs) (getHistory s @ [slice])
      in if length f > 1000 then tl f else f)"
  using assms by (cases "localStorage_slices s") (simp_all add: saveSlice_def getHistory_def Let_def)

lemma cap_once:
  assumes "length f \<le> n + 1" "n \<le> (1000 :: nat)"
  shows "length (if length f > 1000 then tl f else f) \<le> 1000"
proof (cases "length f > 1000")
  case True
  then have "length (if length f > 1000 then tl f else f) = length f - 1"
    by (simp only: if_True length_tl)
  then show ?thesis using assms by linarith
next
  case False
  then show ?thesis by simp
qed



text \<open>
  Along any sequence of appends, failed writes included, a store within the cap
  stays within the cap.
\<close>

lemma saveSlice_run_cap:
  assumes "localStorage_slices s \<noteq> BadItem" "length (getHistory s) \<le> 1000"
  shows "length (getHistory (fold (\<lambda>(slice, now, ok). saveSlice slice now ok) appends s)) \<le> 1000
       \<and> localStorage_slices (fold (\<lambda>(slice, now, ok). saveSlice slice now ok) appends s)
            \<noteq> BadItem"
  using assms
proof (induction appends arbitrary: s)
  case Nil
  then show ?case by simp
next
  case (Cons a appends)
  obtain slice now ok where a: "a = (slice, now, ok)" by (cases a)
  have ok: "localStorage_slices (saveSlice slice now ok s) \<noteq> BadItem"
    using Cons.prems(1)
    by (cases "localStorage_slices s") (simp_all add: saveSlice_def Let_def)
  have len: "length (getHistory (saveSlice slice now ok s)) \<le> 1000"
  proof (cases ok)
    case False
    have "saveSlice slice now False s = s"
      by (cases "localStorage_slices s") (simp_all add: saveSlice_def Let_def)
    then show ?thesis using False Cons.prems(2) by simp
  next
    case True
    let ?f = "filter (\<lambda>x. now - sl_end x < retentionMs) (getHistory s @ [slice])"
    have "length ?f \<le> length (getHistory s) + 1"
      using length_filter_le [of "\<lambda>x. now - sl_end x < retentionMs" "getHistory s @ [slice]"]
      by simp
    then have c: "length (if length ?f > 1000 then tl ?f else ?f) \<le> 1000"
      using Cons.prems(2) by (rule cap_once)
    have e: "getHistory (saveSlice slice now True s) = (if length ?f > 1000 then tl ?f else ?f)"
      using getHistory_saveSlice [OF Cons.prems(1), of slice now] by (simp only: Let_def)
    have t: "ok = True" using True by simp
    show ?thesis unfolding t e by (rule c)
  qed
  show ?case
    using Cons.IH [OF ok len] by (simp add: a)
qed



section \<open>The steps of a frame, seen from the two sides of the state\<close>

subsection \<open>The window side\<close>












subsection \<open>The calibration side\<close>

lemma calView_resetSlice: "calView (resetSlice t s) = calView s"
  by (simp add: calView_def resetSlice_def)

lemma calView_saveSlice: "calView (saveSlice sl t w s) = calView s"
  by (cases "localStorage_slices s") (simp_all add: calView_def saveSlice_def Let_def)

lemma calView_lastCompleted:
  "calView (s\<lparr>this_lastCompletedSlice := x\<rparr>) = calView s"
  by (simp add: calView_def)

lemma calView_finalizeSlice: "calView (finalizeSlice fin s) = calView s"
  by (simp add: finalizeSlice_def Let_def calView_resetSlice calView_saveSlice
      calView_lastCompleted)

lemma calView_updateInterimScore: "calView (updateInterimScore t s) = calView s"
  by (simp add: calView_def updateInterimScore_def Let_def)

lemma calView_pushRingBuffer: "calView (pushRingBuffer p s) = calView s"
  by (simp add: calView_def pushRingBuffer_def Let_def)

lemma calView_detectGap: "calView (snd (detectGap t s)) = calView s"
  by (simp add: calView_def detectGap_def Let_def split: option.splits)

lemma calView_detectSegment: "calView (detectSegment a t s) = calView s"
  by (simp add: calView_def detectSegment_def Let_def)

lemma calView_aggregateFrame: "calView (aggregateFrame d fd t s) = calView s"
proof -
  have "calView (aggregateFrame d fd t s) = calView s" if "d \<ge> INVALID_DBFS_THRESHOLD"
    using that
    by (simp add: aggregateFrame_def Let_def calView_detectSegment) (simp add: calView_def)
  then show ?thesis by (cases "d \<ge> INVALID_DBFS_THRESHOLD") (simp_all add: aggregateFrame_def)
qed

lemma calView_lastScoreCalcTime:
  "calView (s\<lparr>this_lastScoreCalcTime := x\<rparr>) = calView s"
  by (simp add: calView_def)

lemma calView_lastRms:
  "calView (s\<lparr>this_lastRms := x\<rparr>) = calView s"
  by (simp add: calView_def)

lemmas calView_simps = calView_resetSlice calView_saveSlice calView_lastCompleted
  calView_finalizeSlice calView_updateInterimScore calView_pushRingBuffer calView_detectGap
  calView_detectSegment calView_aggregateFrame calView_lastScoreCalcTime calView_lastRms

lemma foldl_plus: "foldl (\<lambda>a b. a + b) a xs = a + sum_list (xs :: real list)"
  by (induction xs arbitrary: a) (simp_all add: add.assoc)

lemma pinned_baseline:
  "baselineDb (pinned (noSettings\<lparr>p_baselineDb := Some d, p_baselineRms := Some a\<rparr>) st) = d"
  "baselineRms (pinned (noSettings\<lparr>p_baselineDb := Some d, p_baselineRms := Some a\<rparr>) st) = Some a"
  by (simp_all add: pinned_def spread_def noSettings_def Let_def)

lemma calView_processCalibrationFrame:
  "calView (processCalibrationFrame r s) = calStep r (calView s)"
proof (cases "this_isCalibrating s")
  case False
  then show ?thesis by (simp add: processCalibrationFrame_def calStep_def calView_def)
next
  case True
  show ?thesis
  proof (cases "length (this_calibrationBuffer s) + 1 < 60")
    case less: True
    then show ?thesis using True
      by (simp add: processCalibrationFrame_def calStep_def calView_def Let_def const_defs)
  next
    case False
    then have ge: "59 \<le> length (this_calibrationBuffer s)" by simp
    show ?thesis using True False ge
      by (simp add: processCalibrationFrame_def calStep_def calView_def Let_def const_defs
          saveNoiseControlSettings_def updateLocalSettings_def pinned_baseline foldl_plus)
  qed
qed

lemma calView_measureFrame:
  "calView (measureFrame nowTs env s) = calStep (frameRms (nowTs, env)) (calView s)"
proof -
  have a: "calView (processCalibrationFrame r (s\<lparr>this_lastRms := x\<rparr>))
             = calStep r (calView s)" for r x
    by (simp add: calView_processCalibrationFrame calView_lastRms)
  have b: "calView s = calStep r (calView s)" if "\<not> this_isCalibrating s" for r
    using that by (simp add: calStep_def calView_def)
  show ?thesis
    by (simp add: measureFrame_def Let_def split_beta calView_simps frameRms_def a b)
qed

lemma calView_processFrame:
  "calView (processFrame nowTs env s) = calFrame (frameRms (nowTs, env)) (calView s)"
proof -
  have w: "cv_analyser (calView s) = this_analyser s"
    "cv_warmup (calView s) = this_warmupFramesRemaining s"
    by (simp_all add: calView_def)
  show ?thesis
    unfolding calFrame_def w
    by (simp add: processFrame_def Let_def calView_simps calView_measureFrame)
      (simp add: calView_def)
qed

lemma calView_runFrames:
  "calView (runFrames frames s) = fold calFrame (map frameRms frames) (calView s)"
proof (induction frames arbitrary: s)
  case Nil
  then show ?case by (simp add: runFrames_def)
next
  case (Cons f fs)
  obtain n env where f: "f = (n, env)" by (cases f)
  have "runFrames (f # fs) s = runFrames fs (processFrame n env s)"
    by (simp add: runFrames_def f)
  then show ?case using Cons.IH [of "processFrame n env s"]
    by (simp add: calView_processFrame f)
qed

lemma calFrame_warmup_run:
  assumes "cv_analyser v" "length rs \<le> cv_warmup v"
  shows "fold calFrame rs v = v\<lparr>cv_warmup := cv_warmup v - length rs\<rparr>"
  using assms
proof (induction rs arbitrary: v)
  case Nil
  then show ?case by simp
next
  case (Cons r rs)
  have step: "calFrame r v = v\<lparr>cv_warmup := cv_warmup v - 1\<rparr>"
    using Cons.prems by (simp add: calFrame_def)
  have "fold calFrame rs (v\<lparr>cv_warmup := cv_warmup v - 1\<rparr>)
        = (v\<lparr>cv_warmup := cv_warmup v - 1\<rparr>)
            \<lparr>cv_warmup := cv_warmup (v\<lparr>cv_warmup := cv_warmup v - 1\<rparr>) - length rs\<rparr>"
    using Cons.prems by (intro Cons.IH) auto
  then show ?case using step by simp
qed

lemma calFrame_collect_run:
  assumes "cv_analyser v" "cv_warmup v = 0" "cv_isCalibrating v"
    and "length (cv_buffer v) + length rs < 60"
  shows "fold calFrame rs v = v\<lparr>cv_buffer := cv_buffer v @ rs\<rparr>"
  using assms
proof (induction rs arbitrary: v)
  case Nil
  then show ?case by simp
next
  case (Cons r rs)
  have step: "calFrame r v = v\<lparr>cv_buffer := cv_buffer v @ [r]\<rparr>"
    using Cons.prems by (simp add: calFrame_def calStep_def)
  have "fold calFrame rs (v\<lparr>cv_buffer := cv_buffer v @ [r]\<rparr>)
        = (v\<lparr>cv_buffer := cv_buffer v @ [r]\<rparr>)
            \<lparr>cv_buffer := cv_buffer (v\<lparr>cv_buffer := cv_buffer v @ [r]\<rparr>) @ rs\<rparr>"
    using Cons.prems by (intro Cons.IH) auto
  then show ?case using step by simp
qed

lemma calView_calibrate:
  "calView (calibrate d cb s) =
     (if cv_status (calView s) \<noteq> Active
      then (if cb then (calView s)\<lparr>cv_reports := cv_reports (calView s) @ [False]\<rparr> else calView s)
      else (calView s)\<lparr> cv_isCalibrating := True, cv_targetDb := d, cv_buffer := [],
                          cv_callback := cb \<rparr>)"
  by (simp add: calibrate_def calView_def)

lemma calView_stop:
  "calView (stop fin s) =
     (if cv_status (calView s) = Paused then calView s
      else (calView s)\<lparr>cv_status := Paused, cv_analyser := False\<rparr>)"
proof -
  have "calView (finalizeSlice fin s) = calView s" by (rule calView_finalizeSlice)
  then have f: "this_status (finalizeSlice fin s) = this_status s"
    "this_analyser (finalizeSlice fin s) = this_analyser s"
    "this_lastFrameTime (finalizeSlice fin s) = this_lastFrameTime s"
    "this_warmupFramesRemaining (finalizeSlice fin s) = this_warmupFramesRemaining s"
    "this_isCalibrating (finalizeSlice fin s) = this_isCalibrating s"
    "this_calibrationBuffer (finalizeSlice fin s) = this_calibrationBuffer s"
    "this_calibrationTargetDb (finalizeSlice fin s) = this_calibrationTargetDb s"
    "this_baselineRms (finalizeSlice fin s) = this_baselineRms s"
    "this_baselineDb (finalizeSlice fin s) = this_baselineDb s"
    "this_calibrationCallback (finalizeSlice fin s) = this_calibrationCallback s"
    "calibrationReports (finalizeSlice fin s) = calibrationReports s"
    "localStorage_settings (finalizeSlice fin s) = localStorage_settings s"
    "settingsEvents (finalizeSlice fin s) = settingsEvents s"
    by (simp_all add: calView_def)
  show ?thesis
    by (simp add: stop_def Let_def) (simp add: calView_def f)
qed

lemma calView_start:
  assumes "cv_status (calView s) \<noteq> Active"
  shows "calView (start True resetNow loopNow env s) =
     (if loopNow - cv_lastFrameTime (calView s) \<ge> 50
      then (calView s)\<lparr> cv_status := Active, cv_analyser := True, cv_warmup := 9,
                         cv_lastFrameTime := loopNow \<rparr>
      else (calView s)\<lparr> cv_status := Active, cv_analyser := True, cv_warmup := 10 \<rparr>)"
proof -
  define s1 where "s1 = resetSlice resetNow
      ((s\<lparr>this_status := Initializing, this_warmupFramesRemaining := 10\<rparr>)
         \<lparr>this_analyser := True, this_status := Active\<rparr>)"
  have v1: "calView s1 = (calView s)\<lparr>cv_status := Active, cv_analyser := True, cv_warmup := 10\<rparr>"
    by (simp add: s1_def calView_def resetSlice_def)
  have lf: "this_lastFrameTime s1 = cv_lastFrameTime (calView s)"
    by (simp add: s1_def resetSlice_def calView_def)
  have st: "this_status s1 = Active" "this_analyser s1"
    by (simp_all add: s1_def resetSlice_def)
  have pf: "calView (processFrame loopNow env s1) =
      (calView s)\<lparr>cv_status := Active, cv_analyser := True, cv_warmup := 9\<rparr>"
    by (simp add: calView_processFrame v1 calFrame_def)
  have upd: "calView (x\<lparr>this_lastFrameTime := t\<rparr>) = (calView x)\<lparr>cv_lastFrameTime := t\<rparr>" for x t
    by (simp add: calView_def)
  have "calView (loop loopNow env s1) =
     (if loopNow - cv_lastFrameTime (calView s) \<ge> 50
      then (calView s)\<lparr> cv_status := Active, cv_analyser := True, cv_warmup := 9,
                         cv_lastFrameTime := loopNow \<rparr>
      else (calView s)\<lparr> cv_status := Active, cv_analyser := True, cv_warmup := 10 \<rparr>)"
    by (simp add: loop_def Let_def lf st upd pf v1 const_defs)
  moreover have "start True resetNow loopNow env s = loop loopNow env s1"
    using assms by (simp add: start_def Let_def calView_def s1_def)
  ultimately show ?thesis by simp
qed

subsection \<open>The sample inputs\<close>

lemma length_exampleFrames: "length (exampleFrames c p t k) = k"
  by (simp add: exampleFrames_def)

lemma frameRms_exampleFrame: "frameRms (n, exampleFrame c u) = \<bar>c\<bar>"
  by (simp add: frameRms_def exampleFrame_def rms_replicate)

lemma frameRms_exampleFrames:
  "map frameRms (exampleFrames c p t k) = replicate k \<bar>c\<bar>"
  by (simp add: exampleFrames_def comp_def map_replicate_const frameRms_exampleFrame)

lemma frameRms_exampleFrames_all:
  "\<forall>f \<in> set (exampleFrames c p t k). frameRms f = \<bar>c\<bar>"
  by (auto simp: exampleFrames_def frameRms_exampleFrame)

lemma calView_new:
  "calView (newNoiseService NoItem NoItem) =
     \<lparr> cv_status = Paused, cv_analyser = False, cv_lastFrameTime = 0, cv_warmup = 0,
       cv_isCalibrating = False, cv_buffer = [], cv_targetDb = 0, cv_baselineRms = 1 / 1000,
       cv_baselineDb = 40, cv_callback = False, cv_reports = [], cv_settings = NoItem,
       cv_events = [] \<rparr>"
proof -
  have "(10::real) powr (- 3) = 1 / 1000"
    by (simp add: powr_minus_divide)
  then show ?thesis
    by (simp add: calView_def newNoiseService_def updateLocalSettings_def
        getNoiseControlSettings_def DEFAULT_SETTINGS_def DEFAULT_DISPLAY_BASELINE_DB_def
        pow10_def)
qed

lemma calView_warmService:
  "calView warmService =
     \<lparr> cv_status = Active, cv_analyser = True, cv_lastFrameTime = 5000, cv_warmup = 0,
       cv_isCalibrating = False, cv_buffer = [], cv_targetDb = 0, cv_baselineRms = 1 / 1000,
       cv_baselineDb = 40, cv_callback = False, cv_reports = [], cv_settings = NoItem,
       cv_events = [] \<rparr>"
proof -
  define v0 where "v0 = calView (start True 1700000000000 5000 (exampleFrame 0 1700000000000)
          (newNoiseService NoItem NoItem))"
  have v0: "v0 = \<lparr> cv_status = Active, cv_analyser = True, cv_lastFrameTime = 5000,
       cv_warmup = 9, cv_isCalibrating = False, cv_buffer = [], cv_targetDb = 0,
       cv_baselineRms = 1 / 1000, cv_baselineDb = 40, cv_callback = False, cv_reports = [],
       cv_settings = NoItem, cv_events = [] \<rparr>"
    unfolding v0_def by (simp add: calView_start calView_new)
  have "fold calFrame (map frameRms (exampleFrames 0 5050 1700000000050 9)) v0
          = v0\<lparr>cv_warmup := cv_warmup v0 - length (map frameRms (exampleFrames 0 5050 1700000000050 9))\<rparr>"
    by (rule calFrame_warmup_run) (simp_all add: v0 length_exampleFrames)
  then show ?thesis
    unfolding warmService_def calView_runFrames v0_def [symmetric]
    by (simp add: v0 length_exampleFrames)
qed

lemma warmService_fields:
  "this_status warmService = Active" "this_analyser warmService"
  "this_warmupFramesRemaining warmService = 0"
proof -
  have "cv_status (calView warmService) = Active" "cv_analyser (calView warmService)"
    "cv_warmup (calView warmService) = 0"
    by (simp_all add: calView_warmService)
  then show "this_status warmService = Active" "this_analyser warmService"
    "this_warmupFramesRemaining warmService = 0"
    by (simp_all add: calView_def)
qed




section \<open>Properties of gap detection\<close>

lemma detectSegment_sampled:
  "this_sliceSampledDuration (detectSegment a t s) = this_sliceSampledDuration s"
  by (simp add: detectSegment_def Let_def)


text \<open>
  The first frame of a window has no previous frame to measure from (the stamp is
  cleared with the window): it records no gap and counts for the nominal 50 ms.
\<close>

lemma detectGap_first_frame:
  assumes "this_lastProcessedFrameTs s = None"
  shows "detectGap frameTs s = (50, s\<lparr>this_lastProcessedFrameTs := Some frameTs\<rparr>)"
  using assms by (simp add: detectGap_def const_defs)




section \<open>Properties of segment detection\<close>


lemma all_below_iff:
  "(\<forall>(d, fd, t) \<in> set fs. d \<le> - 50) \<longleftrightarrow> \<not> (\<exists>x \<in> set fs. fst x > (- 50 :: real))"
  by (auto simp: not_less split_beta)


















section \<open>Properties of calibration\<close>

lemma map_const_replicate:
  "\<forall>x \<in> set xs. f x = c \<Longrightarrow> map f xs = replicate (length xs) c"
  by (induction xs) auto

lemma replicate_sixty: "replicate 60 r = replicate 59 r @ [r]"
proof -
  have "replicate (Suc 59) r = replicate 59 r @ [r]"
    by (simp only: replicate_Suc replicate_append_same)
  then show ?thesis by simp
qed

text \<open>
  Sixty frames of amplitude \<open>r\<close> after \<^verbatim>\<open>calibrate\<close> on a running service: the
  first 59 are collected, the sixtieth commits their mean and the target level.
\<close>

lemma calibration_commits:
  assumes "this_status s = Active" "this_analyser s" "this_warmupFramesRemaining s = 0"
    and "length frames = 60" and "\<forall>f \<in> set frames. frameRms f = r"
  shows "calView (runFrames frames (calibrate d cb s)) =
           (calView (calibrate d cb s))
             \<lparr> cv_buffer := replicate 60 r, cv_isCalibrating := False, cv_baselineRms := r,
               cv_baselineDb := d, cv_callback := False,
               cv_reports := (if cb then calibrationReports s @ [True] else calibrationReports s),
               cv_settings := Item (toJSON (pinned (noSettings\<lparr> p_baselineDb := Some d,
                                        p_baselineRms := Some r \<rparr>) (localStorage_settings s))),
               cv_events := settingsEvents s @ [pinned (noSettings\<lparr> p_baselineDb := Some d,
                                        p_baselineRms := Some r \<rparr>) (localStorage_settings s)] \<rparr>"
proof -
  define v where "v = calView (calibrate d cb s)"
  have v: "cv_analyser v" "cv_warmup v = 0" "cv_isCalibrating v" "cv_buffer v = []"
    "cv_targetDb v = d" "cv_callback v = cb" "cv_reports v = calibrationReports s"
    "cv_settings v = localStorage_settings s" "cv_events v = settingsEvents s"
    using assms(1-3) by (simp_all add: v_def calView_calibrate) (simp_all add: calView_def)
  have m: "map frameRms frames = replicate 59 r @ [r]"
    using map_const_replicate [OF assms(5)] assms(4) replicate_sixty by simp
  have "fold calFrame (replicate 59 r) v = v\<lparr>cv_buffer := cv_buffer v @ replicate 59 r\<rparr>"
    by (rule calFrame_collect_run) (simp_all add: v)
  then have c: "fold calFrame (replicate 59 r) v = v\<lparr>cv_buffer := replicate 59 r\<rparr>"
    by (simp only: v append_Nil)
  have "fold calFrame (map frameRms frames) v = calFrame r (v\<lparr>cv_buffer := replicate 59 r\<rparr>)"
    by (simp only: m fold_append comp_apply c fold_simps)
  also have "\<dots> = v\<lparr> cv_buffer := replicate 60 r, cv_isCalibrating := False, cv_baselineRms := r,
               cv_baselineDb := d, cv_callback := False,
               cv_reports := (if cb then calibrationReports s @ [True] else calibrationReports s),
               cv_settings := Item (toJSON (pinned (noSettings\<lparr> p_baselineDb := Some d,
                                        p_baselineRms := Some r \<rparr>) (localStorage_settings s))),
               cv_events := settingsEvents s @ [pinned (noSettings\<lparr> p_baselineDb := Some d,
                                        p_baselineRms := Some r \<rparr>) (localStorage_settings s)] \<rparr>"
    using v
    by (simp add: calFrame_def calStep_def Let_def replicate_sixty [symmetric] sum_list_replicate)
  finally show ?thesis by (simp add: calView_runFrames v_def)
qed

lemma display_at_baseline:
  "computeDisplayDbFromRms \<lparr> dp_rms = r, dp_baselineRms = r, dp_baselineDb = d \<rparr>
     = max 20 (min 100 d)"
proof -
  have "max (1 / 10 ^ 12) r > 0" by (simp add: max_def)
  then have "max (1 / 10 ^ 12) r / max (1 / 10 ^ 12) r = 1" by simp
  then show ?thesis by (simp add: computeDisplayDbFromRms_def Math_log10_def Let_def)
qed

text \<open>
  Claim C9, as amended. After a calibration on a running service that collected its
  sixty frames at one amplitude \<open>r\<close> for the target level \<open>d\<close>, the baseline amplitude
  is \<open>r\<close>, the baseline level is \<open>d\<close>, and a reading at amplitude \<open>r\<close> is displayed as
  \<open>d\<close> clamped to the display range [20, 100]: as \<open>d\<close> itself for every target between
  20 and 100.
\<close>

theorem calibration_roundtrip:
  fixes s :: NoiseService and frames :: "(real \<times> FrameEnv) list" and r d :: real and cb :: bool
  assumes "this_status s = Active" "this_analyser s" "this_warmupFramesRemaining s = 0"
    and "length frames = 60" and "\<forall>f \<in> set frames. frameRms f = r"
  defines "s' \<equiv> runFrames frames (calibrate d cb s)"
  shows "this_baselineRms s' = r \<and> this_baselineDb s' = d \<and> \<not> this_isCalibrating s'
    \<and> computeDisplayDbFromRms
          \<lparr> dp_rms = r, dp_baselineRms = this_baselineRms s', dp_baselineDb = this_baselineDb s' \<rparr>
        = max 20 (min 100 d)
    \<and> (20 \<le> d \<and> d \<le> 100 \<longrightarrow>
         computeDisplayDbFromRms
          \<lparr> dp_rms = r, dp_baselineRms = this_baselineRms s', dp_baselineDb = this_baselineDb s' \<rparr>
         = d)"
proof -
  have "calView s' = (calView (calibrate d cb s))
             \<lparr> cv_buffer := replicate 60 r, cv_isCalibrating := False, cv_baselineRms := r,
               cv_baselineDb := d, cv_callback := False,
               cv_reports := (if cb then calibrationReports s @ [True] else calibrationReports s),
               cv_settings := Item (toJSON (pinned (noSettings\<lparr> p_baselineDb := Some d,
                                        p_baselineRms := Some r \<rparr>) (localStorage_settings s))),
               cv_events := settingsEvents s @ [pinned (noSettings\<lparr> p_baselineDb := Some d,
                                        p_baselineRms := Some r \<rparr>) (localStorage_settings s)] \<rparr>"
    unfolding s'_def using assms(1-5) by (rule calibration_commits)
  then have "cv_baselineRms (calView s') = r" "cv_baselineDb (calView s') = d"
    "\<not> cv_isCalibrating (calView s')"
    by simp_all
  then have b: "this_baselineRms s' = r" "this_baselineDb s' = d" "\<not> this_isCalibrating s'"
    by (simp_all add: calView_def)
  show ?thesis
    unfolding b using b(3) by (simp add: display_at_baseline)
qed

text \<open>Amplitude 1/10 calibrated to 45 dB is then displayed as 45 dB.\<close>

theorem calibration_roundtrip_witness:
  "this_status warmService = Active \<and> this_analyser warmService
   \<and> this_warmupFramesRemaining warmService = 0
   \<and> length (exampleFrames (1 / 10) 6000 1700000001000 60) = 60
   \<and> this_baselineRms (runFrames (exampleFrames (1 / 10) 6000 1700000001000 60)
        (calibrate 45 True warmService)) = 1 / 10
   \<and> computeDisplayDbFromRms
        \<lparr> dp_rms = 1 / 10,
          dp_baselineRms = this_baselineRms (runFrames (exampleFrames (1 / 10) 6000 1700000001000 60)
             (calibrate 45 True warmService)),
          dp_baselineDb = this_baselineDb (runFrames (exampleFrames (1 / 10) 6000 1700000001000 60)
             (calibrate 45 True warmService)) \<rparr> = 45"
proof -
  note h = warmService_fields
  have l: "length (exampleFrames (1 / 10) 6000 1700000001000 60) = 60"
    by (rule length_exampleFrames)
  have r: "\<forall>f \<in> set (exampleFrames (1 / 10) 6000 1700000001000 60). frameRms f = 1 / 10"
    using frameRms_exampleFrames_all [of "1 / 10" 6000 1700000001000 60] by simp
  note t = calibration_roundtrip [OF h l r, of 45 True]
  have d: "(20::real) \<le> 45 \<and> (45::real) \<le> 100" by simp
  from t d have "this_baselineRms (runFrames (exampleFrames (1 / 10) 6000 1700000001000 60)
        (calibrate 45 True warmService)) = 1 / 10
   \<and> computeDisplayDbFromRms
        \<lparr> dp_rms = 1 / 10,
          dp_baselineRms = this_baselineRms (runFrames (exampleFrames (1 / 10) 6000 1700000001000 60)
             (calibrate 45 True warmService)),
          dp_baselineDb = this_baselineDb (runFrames (exampleFrames (1 / 10) 6000 1700000001000 60)
             (calibrate 45 True warmService)) \<rparr> = 45"
    by blast
  with h l show ?thesis by blast
qed

text \<open>
  The claim as stated fails for a target outside the display range: amplitude 1/10
  calibrated to 10 dB is then displayed as 20 dB.
\<close>

theorem calibration_roundtrip_counterexample:
  "this_baselineRms (runFrames (exampleFrames (1 / 10) 6000 1700000001000 60)
        (calibrate 10 True warmService)) = 1 / 10
   \<and> this_baselineDb (runFrames (exampleFrames (1 / 10) 6000 1700000001000 60)
        (calibrate 10 True warmService)) = 10
   \<and> computeDisplayDbFromRms
        \<lparr> dp_rms = 1 / 10,
          dp_baselineRms = this_baselineRms (runFrames (exampleFrames (1 / 10) 6000 1700000001000 60)
             (calibrate 10 True warmService)),
          dp_baselineDb = this_baselineDb (runFrames (exampleFrames (1 / 10) 6000 1700000001000 60)
             (calibrate 10 True warmService)) \<rparr> = 20"
proof -
  note h = warmService_fields
  have l: "length (exampleFrames (1 / 10) 6000 1700000001000 60) = 60"
    by (rule length_exampleFrames)
  have r: "\<forall>f \<in> set (exampleFrames (1 / 10) 6000 1700000001000 60). frameRms f = 1 / 10"
    using frameRms_exampleFrames_all [of "1 / 10" 6000 1700000001000 60] by simp
  define s' where "s' = runFrames (exampleFrames (1 / 10) 6000 1700000001000 60)
             (calibrate 10 True warmService)"
  have "cv_baselineRms (calView s') = 1 / 10" "cv_baselineDb (calView s') = 10"
    unfolding s'_def by (simp_all add: calibration_commits [OF h l r])
  then have b: "this_baselineRms s' = 1 / 10" "this_baselineDb s' = 10"
    by (simp_all add: calView_def)
  show ?thesis
    unfolding s'_def [symmetric] b by (simp add: display_at_baseline)
qed

section \<open>Stopping during a calibration\<close>

lemma loop_paused: "this_status s = Paused \<Longrightarrow> loop now env s = s"
  by (simp add: loop_def)

lemma runLoop_paused: "this_status s = Paused \<Longrightarrow> runLoop frames s = s"
  by (induction frames) (auto simp: runLoop_def loop_paused)

lemma stop_status: "this_status (stop fin s) = Paused"
  by (simp add: stop_def Let_def)

text \<open>
  Claim C4, as amended. A call of \<^verbatim>\<open>stop\<close>, in particular one made while a
  calibration is collecting, commits nothing: the baseline amplitude and the
  baseline level are what they were, nothing is written to the stored settings, no
  settings event is dispatched and no calibration callback is invoked; and as long as
  the service stays stopped the animation frames process nothing, so the previous
  baseline stays in effect.
\<close>

theorem stop_commits_nothing:
  "this_baselineRms (stop fin s) = this_baselineRms s
   \<and> this_baselineDb (stop fin s) = this_baselineDb s
   \<and> localStorage_settings (stop fin s) = localStorage_settings s
   \<and> settingsEvents (stop fin s) = settingsEvents s
   \<and> calibrationReports (stop fin s) = calibrationReports s
   \<and> runLoop frames (stop fin s) = stop fin s"
proof -
  have "cv_baselineRms (calView (stop fin s)) = cv_baselineRms (calView s)"
    "cv_baselineDb (calView (stop fin s)) = cv_baselineDb (calView s)"
    "cv_settings (calView (stop fin s)) = cv_settings (calView s)"
    "cv_events (calView (stop fin s)) = cv_events (calView s)"
    "cv_reports (calView (stop fin s)) = cv_reports (calView s)"
    by (simp_all add: calView_stop)
  then have "this_baselineRms (stop fin s) = this_baselineRms s"
    "this_baselineDb (stop fin s) = this_baselineDb s"
    "localStorage_settings (stop fin s) = localStorage_settings s"
    "settingsEvents (stop fin s) = settingsEvents s"
    "calibrationReports (stop fin s) = calibrationReports s"
    by (simp_all add: calView_def)
  moreover have "runLoop frames (stop fin s) = stop fin s"
    by (rule runLoop_paused) (rule stop_status)
  ultimately show ?thesis by simp
qed

lemma calView_collecting59:
  "calView collecting59 =
     \<lparr> cv_status = Active, cv_analyser = True, cv_lastFrameTime = 5000, cv_warmup = 0,
       cv_isCalibrating = True, cv_buffer = replicate 59 (1 / 2), cv_targetDb = 55,
       cv_baselineRms = 1 / 1000, cv_baselineDb = 40, cv_callback = True, cv_reports = [],
       cv_settings = NoItem, cv_events = [] \<rparr>"
proof -
  define v where "v = calView (calibrate 55 True warmService)"
  have v: "v = \<lparr> cv_status = Active, cv_analyser = True, cv_lastFrameTime = 5000, cv_warmup = 0,
       cv_isCalibrating = True, cv_buffer = [], cv_targetDb = 55,
       cv_baselineRms = 1 / 1000, cv_baselineDb = 40, cv_callback = True, cv_reports = [],
       cv_settings = NoItem, cv_events = [] \<rparr>"
    unfolding v_def by (simp add: calView_calibrate calView_warmService)
  have "fold calFrame (map frameRms (exampleFrames (1 / 2) 6000 1700000001000 59)) v
          = v\<lparr>cv_buffer := cv_buffer v @ map frameRms (exampleFrames (1 / 2) 6000 1700000001000 59)\<rparr>"
    by (rule calFrame_collect_run) (simp_all add: v length_exampleFrames)
  then show ?thesis
    unfolding collecting59_def calView_runFrames v_def [symmetric]
    by (simp add: v frameRms_exampleFrames)
qed

text \<open>
  The interrupted collection of 59 frames is still in the stopped service, and a
  service stopped in the middle of it keeps its previous baseline.
\<close>

theorem stop_commits_nothing_witness:
  "this_isCalibrating collecting59
   \<and> length (this_calibrationBuffer collecting59) = 59
   \<and> this_baselineRms (stop (exampleFinalize 1700000004000) collecting59) = 1 / 1000
   \<and> this_baselineDb (stop (exampleFinalize 1700000004000) collecting59) = 40
   \<and> localStorage_settings (stop (exampleFinalize 1700000004000) collecting59) = NoItem
   \<and> calibrationReports (stop (exampleFinalize 1700000004000) collecting59) = []
   \<and> runLoop (exampleFrames (1 / 2) 9000 1700000004050 5)
        (stop (exampleFinalize 1700000004000) collecting59)
      = stop (exampleFinalize 1700000004000) collecting59"
proof -
  have "cv_isCalibrating (calView collecting59)"
    "length (cv_buffer (calView collecting59)) = 59"
    "cv_baselineRms (calView collecting59) = 1 / 1000"
    "cv_baselineDb (calView collecting59) = 40"
    "cv_settings (calView collecting59) = NoItem"
    "cv_reports (calView collecting59) = []"
    by (simp_all add: calView_collecting59)
  then have c: "this_isCalibrating collecting59"
    "length (this_calibrationBuffer collecting59) = 59"
    "this_baselineRms collecting59 = 1 / 1000"
    "this_baselineDb collecting59 = 40"
    "localStorage_settings collecting59 = NoItem"
    "calibrationReports collecting59 = []"
    by (simp_all add: calView_def)
  from stop_commits_nothing
    [of "exampleFinalize 1700000004000" collecting59 "exampleFrames (1 / 2) 9000 1700000004050 5"]
  show ?thesis
    by (simp add: c)
qed

text \<open>
  The claim as stated fails after a restart: the flag and the 59 stale samples at
  amplitude 1/2 survive the stop, and the first frame after the next warm-up, at
  amplitude 1/10, completes the collection. The baseline committed is the mean
  (59 x 1/2 + 1/10) / 60 = 37/75 with the level 55 of the interrupted request, and
  its callback reports success.
\<close>

theorem stop_calibration_resumes_counterexample:
  "this_isCalibrating collecting59
   \<and> length (this_calibrationBuffer collecting59) = 59
   \<and> this_baselineRms collecting59 = 1 / 1000
   \<and> this_baselineDb collecting59 = 40
   \<and> this_baselineRms resumed = 37 / 75
   \<and> this_baselineDb resumed = 55
   \<and> calibrationReports resumed = [True]"
proof -
  define s1 where "s1 = stop (exampleFinalize 1700000004000) collecting59"
  define s2 where "s2 = start True 1700000010000 15000 (exampleFrame 0 1700000010000) s1"
  define s3 where "s3 = runFrames (exampleFrames 0 15050 1700000010050 9) s2"
  have v1: "calView s1 = (calView collecting59)\<lparr>cv_status := Paused, cv_analyser := False\<rparr>"
    unfolding s1_def by (simp add: calView_stop calView_collecting59)
  have v2: "calView s2 = (calView collecting59)\<lparr>cv_warmup := 9, cv_lastFrameTime := 15000\<rparr>"
    unfolding s2_def by (simp add: calView_start v1 calView_collecting59)
  have "fold calFrame (map frameRms (exampleFrames 0 15050 1700000010050 9)) (calView s2)
          = (calView s2)\<lparr>cv_warmup := cv_warmup (calView s2)
               - length (map frameRms (exampleFrames 0 15050 1700000010050 9))\<rparr>"
    by (rule calFrame_warmup_run) (simp_all add: v2 calView_collecting59 length_exampleFrames)
  then have v3: "calView s3 = (calView collecting59)\<lparr>cv_lastFrameTime := 15000\<rparr>"
    unfolding s3_def calView_runFrames
    by (simp add: v2 calView_collecting59 length_exampleFrames)
  have r: "resumed = runFrames (exampleFrames (1 / 10) 15500 1700000010500 1) s3"
    by (simp add: resumed_def s3_def s2_def s1_def)
  have one: "map frameRms (exampleFrames (1 / 10) 15500 1700000010500 1) = [1 / 10]"
    by (simp add: frameRms_exampleFrames)
  have "calView resumed = calFrame (1 / 10) ((calView collecting59)\<lparr>cv_lastFrameTime := 15000\<rparr>)"
    unfolding r calView_runFrames one by (simp add: v3)
  then have "cv_baselineRms (calView resumed) = 37 / 75" "cv_baselineDb (calView resumed) = 55"
    "cv_reports (calView resumed) = [True]"
    by (simp_all add: calView_collecting59 calFrame_def calStep_def Let_def sum_list_replicate)
  then have a: "this_baselineRms resumed = 37 / 75" "this_baselineDb resumed = 55"
    "calibrationReports resumed = [True]"
    by (simp_all add: calView_def)
  have "cv_isCalibrating (calView collecting59)"
    "length (cv_buffer (calView collecting59)) = 59"
    "cv_baselineRms (calView collecting59) = 1 / 1000"
    "cv_baselineDb (calView collecting59) = 40"
    by (simp_all add: calView_collecting59)
  then have c: "this_isCalibrating collecting59"
    "length (this_calibrationBuffer collecting59) = 59"
    "this_baselineRms collecting59 = 1 / 1000"
    "this_baselineDb collecting59 = 40"
    by (simp_all add: calView_def)
  from a c show ?thesis by simp
qed


end
